theory Spec2Isabelle
  imports Main "HOL-Library.Word" "HOL-Library.Sublist"
begin

section \<open>Values exchanged with the plugin SDK and the management API\<close>

text \<open>
  A Go pointer is an option: \<open>None\<close> is \<open>nil\<close>. A value of type \<open>interface{}\<close>, as the
  plugin SDK hands it to the provider and takes it back, is a \<open>val\<close>; a Go map is an
  association list looked up with \<open>map_of\<close>.
\<close>

type_synonym 'a ptr = "'a option"

datatype val =
    VNil
  | VString string
  | VInt int
  | VBool bool
  | VList "val list"
  | VMap "(string \<times> val) list"

text \<open>The identifier of a streaming job, as \<open>parse.NewStreamingJobID\<close> builds it.\<close>

record StreamingJobId =
  id_SubscriptionId :: string
  id_ResourceGroup :: string
  id_Name :: string

definition NewStreamingJobID :: "string \<Rightarrow> string \<Rightarrow> string \<Rightarrow> StreamingJobId" where
  "NewStreamingJobID subscriptionId resourceGroup name =
     \<lparr>id_SubscriptionId = subscriptionId, id_ResourceGroup = resourceGroup, id_Name = name\<rparr>"

text \<open>
  Modelled from the spec: the identifier type of the managed cluster SDK is not in the
  sources; the spec describes a structured key of subscription, resource group and
  resource name.
\<close>

record ManagedClusterId =
  mc_SubscriptionId :: string
  mc_ResourceGroup :: string
  mc_ManagedClusterName :: string

text \<open>
  Errors are values. \<open>Err\<close> is an error a collaborator returned (the API, an identifier
  parser, the SDK's \<open>Set\<close>); \<open>Errorf\<close> is \<open>fmt.Errorf\<close> with its format string, its
  arguments before the cause, and the cause; \<open>Panic\<close> is a Go run-time panic.
\<close>

datatype fmtarg = ArgJobId StreamingJobId | ArgClusterId ManagedClusterId | ArgString string

datatype error =
    Err string
  | Errorf string "fmtarg list" error
  | ImportAsExistsError string string
  | Panic string

record Identity =
  identity_Type :: "string ptr"
  identity_TenantID :: "string ptr"
  identity_PrincipalID :: "string ptr"

subsection \<open>Identity expansion and flattening\<close>

definition expandStreamAnalyticsJobIdentity :: "val list \<Rightarrow> error + Identity ptr" where
  "expandStreamAnalyticsJobIdentity identity =
     (case identity of
        [] \<Rightarrow> Inl (Panic ''index out of range'')
      | e # _ \<Rightarrow>
          (case e of
             VMap b \<Rightarrow>
               (case map_of b ''type'' of
                  Some (VString s) \<Rightarrow>
                    Inr (Some \<lparr>identity_Type = Some s, identity_TenantID = None,
                               identity_PrincipalID = None\<rparr>)
                | _ \<Rightarrow> Inl (Panic ''interface conversion''))
           | _ \<Rightarrow> Inl (Panic ''interface conversion'')))"

definition deref_or_empty :: "string ptr \<Rightarrow> string" where
  "deref_or_empty p = (case p of None \<Rightarrow> [] | Some s \<Rightarrow> s)"

definition flattenStreamAnalyticsJobIdentity :: "Identity ptr \<Rightarrow> val list option" where
  "flattenStreamAnalyticsJobIdentity identity =
     (case identity of
        None \<Rightarrow> None
      | Some i \<Rightarrow>
          (let t = deref_or_empty (identity_Type i);
               tenantId = deref_or_empty (identity_TenantID i);
               principalId = deref_or_empty (identity_PrincipalID i)
           in Some [VMap [(''type'', VString t),
                          (''tenant_id'', VString tenantId),
                          (''principal_id'', VString principalId)]]))"

subsection \<open>The SDK's object model\<close>

text \<open>
  The structs of the streamanalytics SDK, with the fields the resource reads or writes.
  \<open>StreamingJob\<close> embeds a pointer to its properties and \<open>Transformation\<close> a pointer to
  its own, as the composite literals of the resource show; reading a promoted field
  through a nil embedded pointer panics. \<open>sj_Response\<close> is the status code of the HTTP
  response, \<open>None\<close> when there is no response. An \<open>int32\<close> is a 32-bit word.
\<close>

record TransformationProperties =
  tp_StreamingUnits :: "32 word ptr"
  tp_Query :: "string ptr"

record Transformation =
  transformation_Name :: "string ptr"
  transformation_Properties :: "TransformationProperties ptr"

record ClusterInfo =
  cluster_ID :: "string ptr"

record StreamingJobProperties =
  props_Sku :: "string ptr"
  props_JobID :: "string ptr"
  props_CompatibilityLevel :: string
  props_EventsLateArrivalMaxDelayInSeconds :: "32 word ptr"
  props_EventsOutOfOrderMaxDelayInSeconds :: "32 word ptr"
  props_EventsOutOfOrderPolicy :: string
  props_OutputErrorPolicy :: string
  props_DataLocale :: "string ptr"
  props_Cluster :: "ClusterInfo ptr"
  props_Transformation :: "Transformation ptr"

record StreamingJob =
  sj_Response :: "nat ptr"
  sj_Properties :: "StreamingJobProperties ptr"
  sj_Identity :: "Identity ptr"
  sj_Tags :: "(string \<times> string ptr) list"
  sj_Location :: "string ptr"
  sj_ID :: "string ptr"
  sj_Name :: "string ptr"

text \<open>
  Every call the resource makes on the management API, with its arguments (the context
  left out). An operation appends its calls to a trace, in the order it makes them.
\<close>

datatype call =
    JobsGet string string string
  | JobsCreateOrReplace StreamingJob string string
  | FutureWaitForCompletionRef
  | JobsUpdate StreamingJob string string
  | TransformationsUpdate Transformation string string string
  | JobsDelete string string

fun mutating :: "call \<Rightarrow> bool" where
  "mutating (JobsGet _ _ _) = False"
| "mutating FutureWaitForCompletionRef = False"
| "mutating (JobsCreateOrReplace _ _ _) = True"
| "mutating (JobsUpdate _ _ _) = True"
| "mutating (TransformationsUpdate _ _ _ _) = True"
| "mutating (JobsDelete _ _) = True"

text \<open>
  The API clients. What a call answers may depend on every call made before it, so each
  client function takes the trace so far.
\<close>

record clients =
  Jobs_Get :: "call list \<Rightarrow> string \<Rightarrow> string \<Rightarrow> string \<Rightarrow> StreamingJob \<times> error option"
  Jobs_CreateOrReplace :: "call list \<Rightarrow> StreamingJob \<Rightarrow> string \<Rightarrow> string \<Rightarrow> error option"
  Future_WaitForCompletionRef :: "call list \<Rightarrow> error option"
  Jobs_Update :: "call list \<Rightarrow> StreamingJob \<Rightarrow> string \<Rightarrow> string \<Rightarrow> error option"
  Transformations_Update ::
    "call list \<Rightarrow> Transformation \<Rightarrow> string \<Rightarrow> string \<Rightarrow> string \<Rightarrow> error option"
  Jobs_Delete :: "call list \<Rightarrow> string \<Rightarrow> string \<Rightarrow> error option"

text \<open>
  The helpers of the repository that the resource calls and that are not among the
  sources are parameters: the identifier parser and printer, the location normaliser, the
  tag conversions, the schema check that makes the SDK's \<open>Set\<close> fail, and the
  subscription of the account.
\<close>

record deps =
  parse_StreamingJobID :: "string \<Rightarrow> error + StreamingJobId"
  StreamingJobId_ID :: "StreamingJobId \<Rightarrow> string"
  NormalizeLocation :: "string \<Rightarrow> string"
  tags_Expand :: "(string \<times> val) list \<Rightarrow> (string \<times> string ptr) list"
  tags_Flatten :: "(string \<times> string ptr) list \<Rightarrow> val"
  set_error :: "string \<Rightarrow> val \<Rightarrow> error option"
  account_SubscriptionId :: string

text \<open>
  Modelled from the spec: \<open>utils.ResponseWasNotFound\<close> is not among the sources; a
  "not found" response is an HTTP response with status 404.
\<close>

definition ResponseWasNotFound :: "nat ptr \<Rightarrow> bool" where
  "ResponseWasNotFound resp = (case resp of None \<Rightarrow> False | Some status \<Rightarrow> status = 404)"

subsection \<open>Resource data\<close>

text \<open>
  The SDK's \<open>ResourceData\<close>: the identifier, the new-resource flag and the attributes.
  \<open>Get\<close> answers the zero value of the attribute's schema type when it is unset (the
  attributes hold the schema's defaults where the schema has one), and \<open>GetOk\<close> says
  whether the value differs from that zero value. \<open>Set\<close> stores the
  value it is given (a nil pointer as \<open>VNil\<close>) unless the schema check refuses it.
\<close>

record ResourceData =
  rd_Id :: string
  rd_IsNewResource :: bool
  rd_attrs :: "string \<Rightarrow> val option"

definition rd_GetString :: "ResourceData \<Rightarrow> string \<Rightarrow> string" where
  "rd_GetString d k = (case rd_attrs d k of Some (VString s) \<Rightarrow> s | _ \<Rightarrow> [])"

definition rd_GetInt :: "ResourceData \<Rightarrow> string \<Rightarrow> int" where
  "rd_GetInt d k = (case rd_attrs d k of Some (VInt i) \<Rightarrow> i | _ \<Rightarrow> 0)"

definition rd_GetList :: "ResourceData \<Rightarrow> string \<Rightarrow> val list" where
  "rd_GetList d k = (case rd_attrs d k of Some (VList xs) \<Rightarrow> xs | _ \<Rightarrow> [])"

definition rd_GetMap :: "ResourceData \<Rightarrow> string \<Rightarrow> (string \<times> val) list" where
  "rd_GetMap d k = (case rd_attrs d k of Some (VMap m) \<Rightarrow> m | _ \<Rightarrow> [])"

definition rd_GetOkString :: "ResourceData \<Rightarrow> string \<Rightarrow> string \<times> bool" where
  "rd_GetOkString d k = (rd_GetString d k, rd_GetString d k \<noteq> [])"

definition rd_GetOkList :: "ResourceData \<Rightarrow> string \<Rightarrow> val list \<times> bool" where
  "rd_GetOkList d k = (rd_GetList d k, rd_GetList d k \<noteq> [])"

definition rd_SetId :: "ResourceData \<Rightarrow> string \<Rightarrow> ResourceData" where
  "rd_SetId d v = d\<lparr>rd_Id := v\<rparr>"

definition rd_Set :: "deps \<Rightarrow> ResourceData \<Rightarrow> string \<Rightarrow> val \<Rightarrow> ResourceData \<times> error option" where
  "rd_Set P d k v =
     (case set_error P k v of
        Some e \<Rightarrow> (d, Some e)
      | None \<Rightarrow> (d\<lparr>rd_attrs := (rd_attrs d)(k \<mapsto> v)\<rparr>, None))"

text \<open>A \<open>d.Set\<close> whose error the source drops.\<close>

definition rd_SetIgnore :: "deps \<Rightarrow> ResourceData \<Rightarrow> string \<Rightarrow> val \<Rightarrow> ResourceData" where
  "rd_SetIgnore P d k v = fst (rd_Set P d k v)"

definition ptr_val :: "string ptr \<Rightarrow> val" where
  "ptr_val p = (case p of None \<Rightarrow> VNil | Some s \<Rightarrow> VString s)"

definition list_val :: "val list option \<Rightarrow> val" where
  "list_val l = (case l of None \<Rightarrow> VNil | Some xs \<Rightarrow> VList xs)"

text \<open>
  \<open>tags.FlattenAndSet\<close> is not among the sources: it stores the flattened tags under
  \<open>tags\<close> and returns the error of that \<open>Set\<close>.
\<close>

definition tags_FlattenAndSet ::
  "deps \<Rightarrow> ResourceData \<Rightarrow> (string \<times> string ptr) list \<Rightarrow> ResourceData \<times> error option" where
  "tags_FlattenAndSet P d t = rd_Set P d ''tags'' (tags_Flatten P t)"

section \<open>The Stream Analytics job resource\<close>

text \<open>
  An operation takes the trace so far and the resource data and returns the resource
  data, the trace extended by its calls, and the error it returns (\<open>None\<close> is \<open>nil\<close>).
\<close>

type_synonym outcome = "ResourceData \<times> call list \<times> error option"

subsection \<open>Read\<close>

text \<open>The body of \<open>if props := resp.StreamingJobProperties; props != nil\<close>.\<close>

definition readProperties :: "deps \<Rightarrow> StreamingJobProperties \<Rightarrow> ResourceData \<Rightarrow> error + ResourceData" where
  "readProperties P props d =
     (let d1 = rd_SetIgnore P d ''compatibility_level'' (VString (props_CompatibilityLevel props));
          d2 = rd_SetIgnore P d1 ''data_locale'' (ptr_val (props_DataLocale props));
          d3 = (case props_EventsLateArrivalMaxDelayInSeconds props of
                  Some x \<Rightarrow> rd_SetIgnore P d2 ''events_late_arrival_max_delay_in_seconds'' (VInt (sint x))
                | None \<Rightarrow> d2);
          d4 = (case props_EventsOutOfOrderMaxDelayInSeconds props of
                  Some x \<Rightarrow> rd_SetIgnore P d3 ''events_out_of_order_max_delay_in_seconds'' (VInt (sint x))
                | None \<Rightarrow> d3);
          d5 = (case props_Cluster props of
                  Some c \<Rightarrow> rd_SetIgnore P d4 ''stream_analytics_cluster_id'' (ptr_val (cluster_ID c))
                | None \<Rightarrow> d4);
          d6 = rd_SetIgnore P d5 ''events_out_of_order_policy'' (VString (props_EventsOutOfOrderPolicy props));
          d7 = rd_SetIgnore P d6 ''output_error_policy'' (VString (props_OutputErrorPolicy props));
          d8 = rd_SetIgnore P d7 ''job_id'' (ptr_val (props_JobID props))
      in case props_Transformation props of
           None \<Rightarrow> Inr d8
         | Some transformation \<Rightarrow>
             (case transformation_Properties transformation of
                None \<Rightarrow> Inl (Panic ''nil pointer dereference'')
              | Some tp \<Rightarrow>
                  (let d9 = (case tp_StreamingUnits tp of
                               Some units \<Rightarrow> rd_SetIgnore P d8 ''streaming_units'' (VInt (sint units))
                             | None \<Rightarrow> d8)
                   in Inr (rd_SetIgnore P d9 ''transformation_query'' (ptr_val (tp_Query tp))))))"

text \<open>What Read does with a response it got without an error.\<close>

definition readResponse :: "deps \<Rightarrow> StreamingJobId \<Rightarrow> StreamingJob \<Rightarrow> ResourceData \<Rightarrow> ResourceData \<times> error option" where
  "readResponse P jid resp d =
     (let d1 = rd_SetIgnore P d ''name'' (VString (id_Name jid));
          d2 = rd_SetIgnore P d1 ''resource_group_name'' (VString (id_ResourceGroup jid));
          d3 = (case sj_Location resp of
                  Some l \<Rightarrow> rd_SetIgnore P d2 ''location'' (VString (NormalizeLocation P l))
                | None \<Rightarrow> d2)
      in case rd_Set P d3 ''identity'' (list_val (flattenStreamAnalyticsJobIdentity (sj_Identity resp))) of
           (d4, Some err) \<Rightarrow> (d4, Some (Errorf ''setting `identity`: %v'' [] err))
         | (d4, None) \<Rightarrow>
             (case sj_Properties resp of
                None \<Rightarrow> tags_FlattenAndSet P d4 (sj_Tags resp)
              | Some props \<Rightarrow>
                  (case readProperties P props d4 of
                     Inl p \<Rightarrow> (d4, Some p)
                   | Inr d5 \<Rightarrow> tags_FlattenAndSet P d5 (sj_Tags resp))))"

definition resourceStreamAnalyticsJobRead :: "deps \<Rightarrow> clients \<Rightarrow> call list \<Rightarrow> ResourceData \<Rightarrow> outcome" where
  "resourceStreamAnalyticsJobRead P C tr d =
     (case parse_StreamingJobID P (rd_Id d) of
        Inl err \<Rightarrow> (d, tr, Some err)
      | Inr jid \<Rightarrow>
          (let tr1 = tr @ [JobsGet (id_ResourceGroup jid) (id_Name jid) ''transformation'']
           in case Jobs_Get C tr (id_ResourceGroup jid) (id_Name jid) ''transformation'' of
                (resp, Some err) \<Rightarrow>
                  if ResponseWasNotFound (sj_Response resp) then (rd_SetId d [], tr1, None)
                  else (d, tr1, Some (Errorf ''retrieving %s: %+v'' [ArgJobId jid] err))
              | (resp, None) \<Rightarrow>
                  (case readResponse P jid resp d of (d', e) \<Rightarrow> (d', tr1, e))))"

subsection \<open>Create and update\<close>

text \<open>
  The existence probe of a new resource: \<open>Inl\<close> is the early return, \<open>Inr\<close> the trace
  with which the operation goes on.
\<close>

definition existenceProbe :: "clients \<Rightarrow> call list \<Rightarrow> ResourceData \<Rightarrow> StreamingJobId \<Rightarrow> outcome + call list" where
  "existenceProbe C tr d jid =
     (if rd_IsNewResource d then
        (let tr1 = tr @ [JobsGet (id_ResourceGroup jid) (id_Name jid) []]
         in case Jobs_Get C tr (id_ResourceGroup jid) (id_Name jid) [] of
              (existing, err) \<Rightarrow>
                (case (case err of
                         Some e \<Rightarrow>
                           if \<not> ResponseWasNotFound (sj_Response existing)
                           then Some (Errorf ''checking for presence of existing %s: %+v'' [ArgJobId jid] e)
                           else None
                       | None \<Rightarrow> None) of
                   Some failure \<Rightarrow> Inl (d, tr1, Some failure)
                 | None \<Rightarrow>
                     (case sj_ID existing of
                        Some existingId \<Rightarrow>
                          if existingId \<noteq> []
                          then Inl (d, tr1, Some (ImportAsExistsError ''azurerm_stream_analytics_job'' existingId))
                          else Inr tr1
                      | None \<Rightarrow> Inr tr1)))
      else Inr tr)"

definition buildTransformation :: "ResourceData \<Rightarrow> Transformation" where
  "buildTransformation d =
     \<lparr>transformation_Name = Some ''main'',
      transformation_Properties = Some
        \<lparr>tp_StreamingUnits = Some (word_of_int (rd_GetInt d ''streaming_units'')),
         tp_Query = Some (rd_GetString d ''transformation_query'')\<rparr>\<rparr>"

text \<open>
  The payload, before the transformation is attached: \<open>Inl\<close> is a panic of the identity
  expansion.
\<close>

definition buildProps :: "deps \<Rightarrow> ResourceData \<Rightarrow> StreamingJobId \<Rightarrow> error + StreamingJob" where
  "buildProps P d jid =
     (let streamAnalyticsCluster = rd_GetString d ''stream_analytics_cluster_id'';
          properties =
            \<lparr>props_Sku = Some ''Standard'',
             props_JobID = None,
             props_CompatibilityLevel = rd_GetString d ''compatibility_level'',
             props_EventsLateArrivalMaxDelayInSeconds =
               Some (word_of_int (rd_GetInt d ''events_late_arrival_max_delay_in_seconds'')),
             props_EventsOutOfOrderMaxDelayInSeconds =
               Some (word_of_int (rd_GetInt d ''events_out_of_order_max_delay_in_seconds'')),
             props_EventsOutOfOrderPolicy = rd_GetString d ''events_out_of_order_policy'',
             props_OutputErrorPolicy = rd_GetString d ''output_error_policy'',
             props_DataLocale =
               (case rd_GetOkString d ''data_locale'' of
                  (dataLocale, ok) \<Rightarrow> if ok then Some dataLocale else None),
             props_Cluster =
               (if streamAnalyticsCluster \<noteq> []
                then Some \<lparr>cluster_ID = Some streamAnalyticsCluster\<rparr>
                else Some \<lparr>cluster_ID = None\<rparr>),
             props_Transformation = None\<rparr>;
          props =
            \<lparr>sj_Response = None,
             sj_Properties = Some properties,
             sj_Identity = None,
             sj_Tags = tags_Expand P (rd_GetMap d ''tags''),
             sj_Location = Some (NormalizeLocation P (rd_GetString d ''location'')),
             sj_ID = None,
             sj_Name = Some (id_Name jid)\<rparr>
      in case rd_GetOkList d ''identity'' of
           (identity, ok) \<Rightarrow>
             if ok then
               (case expandStreamAnalyticsJobIdentity identity of
                  Inl p \<Rightarrow> Inl p
                | Inr i \<Rightarrow> Inr (props\<lparr>sj_Identity := i\<rparr>))
             else Inr props)"

text \<open>\<open>props.StreamingJobProperties.Transformation = &transformation\<close>.\<close>

definition withTransformation :: "StreamingJob \<Rightarrow> Transformation \<Rightarrow> StreamingJob" where
  "withTransformation props transformation =
     props\<lparr>sj_Properties :=
       map_option (\<lambda>p. p\<lparr>props_Transformation := Some transformation\<rparr>) (sj_Properties props)\<rparr>"

text \<open>The branch of a new resource; \<open>Inr\<close> goes on to Read.\<close>

definition createBranch ::
  "deps \<Rightarrow> clients \<Rightarrow> call list \<Rightarrow> ResourceData \<Rightarrow> StreamingJobId \<Rightarrow> StreamingJob \<Rightarrow> Transformation
     \<Rightarrow> outcome + ResourceData \<times> call list" where
  "createBranch P C tr d jid props0 transformation =
     (let props = withTransformation props0 transformation;
          tr1 = tr @ [JobsCreateOrReplace props (id_ResourceGroup jid) (id_Name jid)]
      in case Jobs_CreateOrReplace C tr props (id_ResourceGroup jid) (id_Name jid) of
           Some err \<Rightarrow> Inl (d, tr1, Some (Errorf ''creating %s: %+v'' [ArgJobId jid] err))
         | None \<Rightarrow>
             (let tr2 = tr1 @ [FutureWaitForCompletionRef]
              in case Future_WaitForCompletionRef C tr1 of
                   Some err \<Rightarrow> Inl (d, tr2, Some (Errorf ''waiting for creation of %s: %+v'' [ArgJobId jid] err))
                 | None \<Rightarrow> Inr (rd_SetId d (StreamingJobId_ID P jid), tr2)))"

text \<open>The branch of an existing resource.\<close>

definition updateBranch ::
  "clients \<Rightarrow> call list \<Rightarrow> ResourceData \<Rightarrow> StreamingJobId \<Rightarrow> StreamingJob \<Rightarrow> Transformation
     \<Rightarrow> outcome + ResourceData \<times> call list" where
  "updateBranch C tr d jid props transformation =
     (let tr1 = tr @ [JobsUpdate props (id_ResourceGroup jid) (id_Name jid)]
      in case Jobs_Update C tr props (id_ResourceGroup jid) (id_Name jid) of
           Some err \<Rightarrow> Inl (d, tr1, Some (Errorf ''updating %s: %+v'' [ArgJobId jid] err))
         | None \<Rightarrow>
             (let tr2 = tr1 @ [JobsGet (id_ResourceGroup jid) (id_Name jid) ''transformation'']
              in case Jobs_Get C tr1 (id_ResourceGroup jid) (id_Name jid) ''transformation'' of
                   (job, Some err) \<Rightarrow> Inl (d, tr2, Some err)
                 | (job, None) \<Rightarrow>
                     (case sj_Properties job of
                        None \<Rightarrow> Inl (d, tr2, Some (Panic ''nil pointer dereference''))
                      | Some jobProps \<Rightarrow>
                          (case props_Transformation jobProps of
                             None \<Rightarrow> Inr (d, tr2)
                           | Some readTransformation \<Rightarrow>
                               (case transformation_Name readTransformation of
                                  None \<Rightarrow> Inl (d, tr2, Some (Panic ''nil pointer dereference''))
                                | Some readName \<Rightarrow>
                                    (let tr3 = tr2 @ [TransformationsUpdate transformation
                                                        (id_ResourceGroup jid) (id_Name jid) readName]
                                     in case Transformations_Update C tr2 transformation
                                               (id_ResourceGroup jid) (id_Name jid) readName of
                                          Some err \<Rightarrow>
                                            Inl (d, tr3, Some (Errorf ''updating transformation for %s: %+v''
                                                                 [ArgJobId jid] err))
                                        | None \<Rightarrow> Inr (d, tr3)))))))"

definition resourceStreamAnalyticsJobCreateUpdate :: "deps \<Rightarrow> clients \<Rightarrow> call list \<Rightarrow> ResourceData \<Rightarrow> outcome" where
  "resourceStreamAnalyticsJobCreateUpdate P C tr d =
     (let jid = NewStreamingJobID (account_SubscriptionId P)
                 (rd_GetString d ''resource_group_name'') (rd_GetString d ''name'')
      in case existenceProbe C tr d jid of
           Inl r \<Rightarrow> r
         | Inr tr1 \<Rightarrow>
             (let transformation = buildTransformation d
              in case buildProps P d jid of
                   Inl p \<Rightarrow> (d, tr1, Some p)
                 | Inr props \<Rightarrow>
                     (case (if rd_IsNewResource d
                            then createBranch P C tr1 d jid props transformation
                            else updateBranch C tr1 d jid props transformation) of
                        Inl r \<Rightarrow> r
                      | Inr (d', tr2) \<Rightarrow> resourceStreamAnalyticsJobRead P C tr2 d')))"

subsection \<open>Delete and import\<close>

definition resourceStreamAnalyticsJobDelete :: "deps \<Rightarrow> clients \<Rightarrow> call list \<Rightarrow> ResourceData \<Rightarrow> outcome" where
  "resourceStreamAnalyticsJobDelete P C tr d =
     (case parse_StreamingJobID P (rd_Id d) of
        Inl err \<Rightarrow> (d, tr, Some err)
      | Inr jid \<Rightarrow>
          (let tr1 = tr @ [JobsDelete (id_ResourceGroup jid) (id_Name jid)]
           in case Jobs_Delete C tr (id_ResourceGroup jid) (id_Name jid) of
                Some err \<Rightarrow> (d, tr1, Some (Errorf ''deleting %s: %+v'' [ArgJobId jid] err))
              | None \<Rightarrow>
                  (let tr2 = tr1 @ [FutureWaitForCompletionRef]
                   in case Future_WaitForCompletionRef C tr1 of
                        Some err \<Rightarrow> (d, tr2, Some (Errorf ''waiting for deletion of %s: %+v'' [ArgJobId jid] err))
                      | None \<Rightarrow> (d, tr2, None))))"

text \<open>
  The function the resource hands to \<open>ImporterValidatingResourceId\<close>: it makes no call,
  so it has no trace.
\<close>

definition importerValidate :: "deps \<Rightarrow> string \<Rightarrow> error option" where
  "importerValidate P jid = (case parse_StreamingJobID P jid of Inl err \<Rightarrow> Some err | Inr _ \<Rightarrow> None)"

section \<open>The managed cluster acceptance test\<close>

subsection \<open>Exists\<close>

text \<open>
  \<open>response.WasNotFound\<close> of the helper library: a response that is there and has
  status 404. The response of the cluster client is reduced to the status code of its
  \<open>HttpResponse\<close>, \<open>None\<close> when that pointer is nil. The identifier parser and the
  client's \<open>Get\<close> are parameters.
\<close>

definition response_WasNotFound :: "nat ptr \<Rightarrow> bool" where
  "response_WasNotFound resp = (case resp of None \<Rightarrow> False | Some status \<Rightarrow> status = 404)"

definition Exists ::
  "(string \<Rightarrow> error + ManagedClusterId) \<Rightarrow> (ManagedClusterId \<Rightarrow> nat ptr \<times> error option)
     \<Rightarrow> string \<Rightarrow> error + bool" where
  "Exists ParseManagedClusterID clientGet stateID =
     (case ParseManagedClusterID stateID of
        Inl err \<Rightarrow> Inl (Errorf ''while parsing resource ID: %+v'' [] err)
      | Inr resourceID \<Rightarrow>
          (case clientGet resourceID of
             (httpResponse, Some err) \<Rightarrow>
               if response_WasNotFound httpResponse then Inr False
               else Inl (Errorf ''while checking for cluster's %q existence: %+v''
                           [ArgClusterId resourceID] err)
           | (httpResponse, None) \<Rightarrow>
               (case httpResponse of
                  None \<Rightarrow> Inl (Panic ''nil pointer dereference'')
                | Some statusCode \<Rightarrow> Inr (statusCode = 200))))"

subsection \<open>The configurations of the test\<close>

text \<open>
  The test data of the acceptance framework, with the fields the configuration uses.
  \<open>%d\<close> prints an integer in decimal.
\<close>

record TestData =
  td_RandomInteger :: int
  td_Primary :: string
  td_RandomString :: string

fun showNat :: "nat \<Rightarrow> string" where
  "showNat n =
     (if n < 10 then [''0123456789'' ! n]
      else showNat (n div 10) @ [''0123456789'' ! (n mod 10)])"

declare showNat.simps [simp del]

definition showInt :: "int \<Rightarrow> string" where
  "showInt i = (if i < 0 then CHR ''-'' # showNat (nat (- i)) else showNat (nat i))"

text \<open>
  A block is the list of its attributes, in the order the source writes them. The text
  \<open>nodeType\<close> returns holds one \<open>node_type\<close> block, and the text \<open>basic\<close> is given holds
  one block or, for \<open>nodeTypeDataBoth\<close>, the two texts one after the other: it is the
  list of the blocks.
\<close>

type_synonym block = "(string \<times> val) list"

definition nodeType :: "string \<Rightarrow> bool \<Rightarrow> int \<Rightarrow> int \<Rightarrow> block list" where
  "nodeType name primary diskSize instanceCount =
     [[(''data_disk_size_gb'', VInt diskSize),
       (''name'', VString name),
       (''primary'', VBool primary),
       (''application_port_range'', VString ''7000-9000''),
       (''ephemeral_port_range'', VString ''10000-20000''),
       (''vm_size'', VString ''Standard_DS2_v2''),
       (''vm_image_publisher'', VString ''MicrosoftWindowsServer''),
       (''vm_image_sku'', VString ''2016-Datacenter''),
       (''vm_image_offer'', VString ''WindowsServer''),
       (''vm_image_version'', VString ''latest''),
       (''vm_instance_count'', VInt instanceCount)]]"

definition nodeTypeData1 :: "block list" where
  "nodeTypeData1 = nodeType ''test1'' True 130 5"

definition nodeTypeData1Altered :: "block list" where
  "nodeTypeData1Altered = nodeType ''test1'' True 140 5"

definition nodeTypeData2 :: "block list" where
  "nodeTypeData2 = nodeType ''test2'' False 130 5"

definition nodeTypeDataBoth :: "block list" where
  "nodeTypeDataBoth = nodeTypeData1 @ nodeTypeData2"

text \<open>
  The managed cluster resource of the configuration \<open>basic\<close> writes: its attributes
  (the references to the resource group resolved to that resource's name and location),
  its \<open>lb_rule\<close> blocks, its \<open>node_type\<close> blocks and its tags.
\<close>

record Config =
  cfg_attrs :: block
  cfg_lb_rule :: "block list"
  cfg_node_type :: "block list"
  cfg_tags :: "(string \<times> string) list"

definition basic :: "TestData \<Rightarrow> block list \<Rightarrow> Config" where
  "basic data nodeTypeData =
     \<lparr>cfg_attrs =
        [(''name'', VString (''testacc-sfmc-'' @ td_RandomString data)),
         (''resource_group_name'', VString (''acctestRG-sfmc-'' @ showInt (td_RandomInteger data))),
         (''location'', VString (td_Primary data)),
         (''sku'', VString ''Standard''),
         (''username'', VString ''testUser''),
         (''password'', VString ''NotV3ryS3cur3P@$$w0rd''),
         (''dns_service_enabled'', VBool True),
         (''client_connection_port'', VInt 12345),
         (''http_gateway_port'', VInt 23456)],
      cfg_lb_rule =
        [[(''backend_port'', VInt 8000),
          (''frontend_port'', VInt 443),
          (''probe_protocol'', VString ''http''),
          (''protocol'', VString ''tcp''),
          (''probe_request_path'', VString ''/'')]],
      cfg_node_type = nodeTypeData,
      cfg_tags = [(''Test'', ''value'')]\<rparr>"

subsection \<open>The steps of the test\<close>

text \<open>
  \<open>check.That(name).ExistsInAzure(r)\<close> and \<open>check.That(name).Key(k).HasValue(v)\<close>; a
  step with a configuration and its checks, and the import step with the attributes it
  does not compare.
\<close>

datatype check = ExistsInAzure | KeyHasValue string string

datatype TestStep = ConfigStep Config "check list" | ImportStep "string list"

definition testSteps :: "TestData \<Rightarrow> TestStep list" where
  "testSteps data =
     [ConfigStep (basic data nodeTypeData1)
        [ExistsInAzure,
         KeyHasValue ''tags.%'' ''1'',
         KeyHasValue ''tags.Test'' ''value''],
      ImportStep [''password''],
      ConfigStep (basic data nodeTypeDataBoth)
        [ExistsInAzure,
         KeyHasValue ''node_type.#'' ''2'',
         KeyHasValue ''node_type.0.name'' ''test1'',
         KeyHasValue ''node_type.1.name'' ''test2''],
      ConfigStep (basic data nodeTypeData1)
        [ExistsInAzure,
         KeyHasValue ''node_type.#'' ''1'',
         KeyHasValue ''node_type.0.name'' ''test1''],
      ConfigStep (basic data nodeTypeData1Altered)
        [ExistsInAzure,
         KeyHasValue ''node_type.#'' ''1'',
         KeyHasValue ''node_type.0.data_disk_size_gb'' ''140'']]"

subsection \<open>The reconciler and the framework, from the spec\<close>

text \<open>
  Modelled from the spec: the create, update and read of the managed cluster resource
  are not among the sources. By the spec an update changes only the fields supplied and
  leaves the unsupplied fields at their prior remote values, the entries of a nested
  list are identified independently of their order, and a read returns the remote
  state. So an apply keeps, for each block of the configuration, the remote block of the
  same name with the supplied attributes written over it, and drops the remote blocks
  the configuration does not name; the attributes of the resource itself are merged the
  same way, and the \<open>lb_rule\<close> blocks and the tags are those supplied.
\<close>

definition blockName :: "block \<Rightarrow> val option" where
  "blockName b = map_of b ''name''"

definition mergeBlock :: "block \<Rightarrow> block \<Rightarrow> block" where
  "mergeBlock desired prior = desired @ filter (\<lambda>kv. map_of desired (fst kv) = None) prior"

definition applyBlock :: "block list \<Rightarrow> block \<Rightarrow> block" where
  "applyBlock remote desired =
     (case find (\<lambda>r. blockName r = blockName desired) remote of
        None \<Rightarrow> desired
      | Some prior \<Rightarrow> mergeBlock desired prior)"

definition applyNodeTypes :: "block list \<Rightarrow> block list \<Rightarrow> block list" where
  "applyNodeTypes remote config = map (applyBlock remote) config"

definition applyConfig :: "Config option \<Rightarrow> Config \<Rightarrow> Config" where
  "applyConfig remote config =
     (case remote of
        None \<Rightarrow> config
      | Some prior \<Rightarrow>
          \<lparr>cfg_attrs = mergeBlock (cfg_attrs config) (cfg_attrs prior),
           cfg_lb_rule = cfg_lb_rule config,
           cfg_node_type = applyNodeTypes (cfg_node_type prior) (cfg_node_type config),
           cfg_tags = cfg_tags config\<rparr>)"

text \<open>
  Modelled from the spec: the acceptance framework is not among the sources. The state
  it checks is the remote state read back, in the flat encoding of the keys of the test:
  \<open>tags.%\<close> and \<open>node_type.#\<close> are counts, \<open>tags.k\<close> a tag, \<open>node_type.i.k\<close> an
  attribute of block \<open>i\<close>. The client's Get answers 200 for a cluster that is there and
  an error with 404 for one that is not; \<open>ExistsInAzure\<close> passes when \<open>Exists\<close> answers
  true. The import step reads the remote state again and compares it with the state,
  the ignored attributes apart.
\<close>

definition showVal :: "val \<Rightarrow> string" where
  "showVal v =
     (case v of
        VString s \<Rightarrow> s
      | VInt i \<Rightarrow> showInt i
      | VBool b \<Rightarrow> (if b then ''true'' else ''false'')
      | _ \<Rightarrow> [])"

fun flatBlocks :: "string \<Rightarrow> nat \<Rightarrow> block list \<Rightarrow> (string \<times> string) list" where
  "flatBlocks name i [] = []"
| "flatBlocks name i (b # bs) =
     map (\<lambda>kv. (name @ ''.'' @ showNat i @ ''.'' @ fst kv, showVal (snd kv))) b
     @ flatBlocks name (Suc i) bs"

definition flatState :: "Config \<Rightarrow> (string \<times> string) list" where
  "flatState c =
     (''tags.%'', showNat (length (cfg_tags c)))
     # map (\<lambda>kv. (''tags.'' @ fst kv, snd kv)) (cfg_tags c)
     @ (''node_type.#'', showNat (length (cfg_node_type c)))
     # flatBlocks ''node_type'' 0 (cfg_node_type c)
     @ (''lb_rule.#'', showNat (length (cfg_lb_rule c)))
     # flatBlocks ''lb_rule'' 0 (cfg_lb_rule c)
     @ map (\<lambda>kv. (fst kv, showVal (snd kv))) (cfg_attrs c)"

definition remoteGet :: "Config option \<Rightarrow> ManagedClusterId \<Rightarrow> nat ptr \<times> error option" where
  "remoteGet remote resourceID =
     (case remote of
        None \<Rightarrow> (Some 404, Some (Err ''not found''))
      | Some _ \<Rightarrow> (Some 200, None))"

record TestEnv =
  env_Parse :: "string \<Rightarrow> error + ManagedClusterId"
  env_StateID :: string

fun checkHolds :: "TestEnv \<Rightarrow> Config option \<Rightarrow> check \<Rightarrow> bool" where
  "checkHolds env remote ExistsInAzure =
     (Exists (env_Parse env) (remoteGet remote) (env_StateID env) = Inr True)"
| "checkHolds env remote (KeyHasValue k v) =
     (case remote of None \<Rightarrow> False | Some r \<Rightarrow> map_of (flatState r) k = Some v)"

definition importHolds :: "Config option \<Rightarrow> Config option \<Rightarrow> string list \<Rightarrow> bool" where
  "importHolds remote state ignored =
     (case (remote, state) of
        (Some r, Some s) \<Rightarrow>
          filter (\<lambda>kv. fst kv \<notin> set ignored) (flatState r) =
          filter (\<lambda>kv. fst kv \<notin> set ignored) (flatState s)
      | _ \<Rightarrow> False)"

text \<open>
  The run of the steps from a remote state: after each step, the remote state and
  whether the step passed.
\<close>

fun runSteps :: "TestEnv \<Rightarrow> Config option \<Rightarrow> TestStep list \<Rightarrow> (Config option \<times> bool) list" where
  "runSteps env remote [] = []"
| "runSteps env remote (ConfigStep config checks # steps) =
     (let remote' = Some (applyConfig remote config)
      in (remote', list_all (checkHolds env remote') checks) # runSteps env remote' steps)"
| "runSteps env remote (ImportStep ignored # steps) =
     (remote, importHolds remote remote ignored) # runSteps env remote steps"

text \<open>The node types of the states of a run, step by step.\<close>

definition nodeTypeStates :: "(Config option \<times> bool) list \<Rightarrow> block list list" where
  "nodeTypeStates run = map (\<lambda>p. case fst p of None \<Rightarrow> [] | Some c \<Rightarrow> cfg_node_type c) run"

text \<open>The attributes of a block other than the one named.\<close>

definition otherAttributes :: "string \<Rightarrow> block \<Rightarrow> block" where
  "otherAttributes k b = filter (\<lambda>kv. fst kv \<noteq> k) b"

section \<open>Reading an outcome\<close>

definition outcomeData :: "outcome \<Rightarrow> ResourceData" where
  "outcomeData r = fst r"

definition outcomeTrace :: "outcome \<Rightarrow> call list" where
  "outcomeTrace r = fst (snd r)"

definition outcomeError :: "outcome \<Rightarrow> error option" where
  "outcomeError r = snd (snd r)"

text \<open>The trace with which a branch of create-or-update ends, returning or going on.\<close>

fun branchTrace :: "outcome + ResourceData \<times> call list \<Rightarrow> call list" where
  "branchTrace (Inl r) = fst (snd r)"
| "branchTrace (Inr r) = snd r"

fun isJobsGet :: "call \<Rightarrow> bool" where
  "isJobsGet (JobsGet _ _ _) = True"
| "isJobsGet _ = False"

fun isTransformationsUpdate :: "call \<Rightarrow> bool" where
  "isTransformationsUpdate (TransformationsUpdate _ _ _ _) = True"
| "isTransformationsUpdate _ = False"

fun isJobsCreateOrReplace :: "call \<Rightarrow> bool" where
  "isJobsCreateOrReplace (JobsCreateOrReplace _ _ _) = True"
| "isJobsCreateOrReplace _ = False"

text \<open>The transformation a payload carries inline, if it has properties at all.\<close>

definition inlineTransformation :: "StreamingJob \<Rightarrow> Transformation option option" where
  "inlineTransformation props = map_option props_Transformation (sj_Properties props)"

section \<open>Concrete inputs\<close>

text \<open>
  A job identifier with its canonical string, helpers that accept exactly that string,
  and clients that answer every call the same way whatever the trace.
\<close>

definition exampleId :: StreamingJobId where
  "exampleId = \<lparr>id_SubscriptionId = ''sub'', id_ResourceGroup = ''rg'', id_Name = ''job''\<rparr>"

definition exampleIdString :: string where
  "exampleIdString =
     ''/subscriptions/sub/resourceGroups/rg/providers/Microsoft.StreamAnalytics/streamingjobs/job''"

definition exampleDeps :: deps where
  "exampleDeps =
     \<lparr>parse_StreamingJobID =
        (\<lambda>s. if s = exampleIdString then Inr exampleId else Inl (Err ''parsing the job id'')),
      StreamingJobId_ID = (\<lambda>i. exampleIdString),
      NormalizeLocation = (\<lambda>l. l),
      tags_Expand = map (\<lambda>kv. (fst kv, case snd kv of VString s \<Rightarrow> Some s | _ \<Rightarrow> None)),
      tags_Flatten = (\<lambda>t. VMap (map (\<lambda>kv. (fst kv, ptr_val (snd kv))) t)),
      set_error = (\<lambda>k v. None),
      account_SubscriptionId = ''sub''\<rparr>"

definition stubClients ::
  "(string \<Rightarrow> StreamingJob \<times> error option) \<Rightarrow> error option \<Rightarrow> error option \<Rightarrow> error option
     \<Rightarrow> error option \<Rightarrow> error option \<Rightarrow> clients" where
  "stubClients getReply createErr waitErr updateErr transformationErr deleteErr =
     \<lparr>Jobs_Get = (\<lambda>tr rg name expand. getReply expand),
      Jobs_CreateOrReplace = (\<lambda>tr props rg name. createErr),
      Future_WaitForCompletionRef = (\<lambda>tr. waitErr),
      Jobs_Update = (\<lambda>tr props rg name. updateErr),
      Transformations_Update = (\<lambda>tr t rg name tname. transformationErr),
      Jobs_Delete = (\<lambda>tr rg name. deleteErr)\<rparr>"

definition emptyJob :: StreamingJob where
  "emptyJob =
     \<lparr>sj_Response = None, sj_Properties = None, sj_Identity = None, sj_Tags = [],
      sj_Location = None, sj_ID = None, sj_Name = None\<rparr>"

definition exampleData :: ResourceData where
  "exampleData =
     \<lparr>rd_Id = exampleIdString,
      rd_IsNewResource = False,
      rd_attrs =
        [''name'' \<mapsto> VString ''job'',
         ''resource_group_name'' \<mapsto> VString ''rg'',
         ''location'' \<mapsto> VString ''westeurope'',
         ''compatibility_level'' \<mapsto> VString ''1.1'',
         ''data_locale'' \<mapsto> VString ''en-US'',
         ''events_late_arrival_max_delay_in_seconds'' \<mapsto> VInt 5,
         ''events_out_of_order_max_delay_in_seconds'' \<mapsto> VInt 0,
         ''events_out_of_order_policy'' \<mapsto> VString ''Adjust'',
         ''output_error_policy'' \<mapsto> VString ''Drop'',
         ''streaming_units'' \<mapsto> VInt 3,
         ''transformation_query'' \<mapsto> VString ''SELECT * INTO o FROM i'']\<rparr>"

definition exampleCluster :: ManagedClusterId where
  "exampleCluster =
     \<lparr>mc_SubscriptionId = ''sub'', mc_ResourceGroup = ''rg'', mc_ManagedClusterName = ''cluster''\<rparr>"

definition newData :: ResourceData where
  "newData = exampleData\<lparr>rd_Id := [], rd_IsNewResource := True\<rparr>"

definition exampleReply :: StreamingJob where
  "exampleReply =
     \<lparr>sj_Response = Some 200,
      sj_Properties = Some
        \<lparr>props_Sku = Some ''Standard'',
         props_JobID = Some ''0000-job'',
         props_CompatibilityLevel = ''1.1'',
         props_EventsLateArrivalMaxDelayInSeconds = Some 5,
         props_EventsOutOfOrderMaxDelayInSeconds = None,
         props_EventsOutOfOrderPolicy = ''Adjust'',
         props_OutputErrorPolicy = ''Drop'',
         props_DataLocale = None,
         props_Cluster = None,
         props_Transformation = Some
           \<lparr>transformation_Name = Some ''main'',
            transformation_Properties = Some
              \<lparr>tp_StreamingUnits = Some 3, tp_Query = Some ''SELECT * INTO o FROM i''\<rparr>\<rparr>\<rparr>,
      sj_Identity = None,
      sj_Tags = [],
      sj_Location = Some ''westeurope'',
      sj_ID = Some exampleIdString,
      sj_Name = Some ''job''\<rparr>"

text \<open>A Get that finds nothing on the probe and the job on every later read.\<close>

definition absentThenPresent :: "string \<Rightarrow> StreamingJob \<times> error option" where
  "absentThenPresent expand =
     (if expand = [] then (emptyJob\<lparr>sj_Response := Some 404\<rparr>, Some (Err ''not found''))
      else (exampleReply, None))"

text \<open>The payload create-or-update builds from \<open>exampleData\<close>, before the transformation.\<close>

definition examplePayload :: StreamingJob where
  "examplePayload =
     \<lparr>sj_Response = None,
      sj_Properties = Some
        \<lparr>props_Sku = Some ''Standard'',
         props_JobID = None,
         props_CompatibilityLevel = ''1.1'',
         props_EventsLateArrivalMaxDelayInSeconds = Some 5,
         props_EventsOutOfOrderMaxDelayInSeconds = Some 0,
         props_EventsOutOfOrderPolicy = ''Adjust'',
         props_OutputErrorPolicy = ''Drop'',
         props_DataLocale = Some ''en-US'',
         props_Cluster = Some \<lparr>cluster_ID = None\<rparr>,
         props_Transformation = None\<rparr>,
      sj_Identity = None,
      sj_Tags = [],
      sj_Location = Some ''westeurope'',
      sj_ID = None,
      sj_Name = Some ''job''\<rparr>"

text \<open>Replies that do not depend on the argument.\<close>

definition alwaysReply :: "StreamingJob \<times> error option \<Rightarrow> string \<Rightarrow> StreamingJob \<times> error option" where
  "alwaysReply r expand = r"

definition clusterReply :: "nat ptr \<times> error option \<Rightarrow> ManagedClusterId \<Rightarrow> nat ptr \<times> error option" where
  "clusterReply r resourceID = r"

definition exampleClusterString :: string where
  "exampleClusterString =
     ''/subscriptions/sub/resourceGroups/rg/providers/Microsoft.ServiceFabric/managedClusters/cluster''"

definition exampleParseCluster :: "string \<Rightarrow> error + ManagedClusterId" where
  "exampleParseCluster s =
     (if s = exampleClusterString then Inr exampleCluster else Inl (Err ''parsing the cluster id''))"

definition exampleTestData :: TestData where
  "exampleTestData =
     \<lparr>td_RandomInteger = 220101, td_Primary = ''westeurope'', td_RandomString = ''ab1cd''\<rparr>"

definition exampleEnv :: TestEnv where
  "exampleEnv = \<lparr>env_Parse = exampleParseCluster, env_StateID = exampleClusterString\<rparr>"

text \<open>A configuration block that supplies the name and the disk size only.\<close>

definition resizeOnly :: "block list" where
  "resizeOnly = [[(''name'', VString ''test1''), (''data_disk_size_gb'', VInt 140)]]"

section \<open>Identity conversions\<close>

text \<open>
  C10. \<open>flattenStreamAnalyticsJobIdentity\<close> is total: it returns nil for a nil identity,
  and otherwise a list of exactly one map whose keys are exactly \<open>type\<close>, \<open>tenant_id\<close>
  and \<open>principal_id\<close>, each holding the contents of the corresponding pointer, or the
  empty string when that pointer is nil.
\<close>

theorem flatten_identity_shape:
  "flattenStreamAnalyticsJobIdentity None = None \<and>
   (\<exists>m. flattenStreamAnalyticsJobIdentity (Some i) = Some [VMap m] \<and>
        distinct (map fst m) \<and>
        set (map fst m) = {''type'', ''tenant_id'', ''principal_id''} \<and>
        map_of m ''type'' = Some (VString (case identity_Type i of None \<Rightarrow> [] | Some s \<Rightarrow> s)) \<and>
        map_of m ''tenant_id'' = Some (VString (case identity_TenantID i of None \<Rightarrow> [] | Some s \<Rightarrow> s)) \<and>
        map_of m ''principal_id'' =
          Some (VString (case identity_PrincipalID i of None \<Rightarrow> [] | Some s \<Rightarrow> s)))"
  by (auto simp: flattenStreamAnalyticsJobIdentity_def deref_or_empty_def)

lemma expand_nonempty_no_index_panic:
  "identity \<noteq> [] \<Longrightarrow>
   expandStreamAnalyticsJobIdentity identity \<noteq> Inl (Panic ''index out of range'')"
  by (auto simp: expandStreamAnalyticsJobIdentity_def split: list.splits val.splits option.splits)

lemma buildProps_no_index_panic:
  "buildProps P d jid \<noteq> Inl (Panic ''index out of range'')"
proof -
  have "rd_GetList d ''identity'' \<noteq> [] \<Longrightarrow>
        expandStreamAnalyticsJobIdentity (rd_GetList d ''identity'') \<noteq> Inl (Panic ''index out of range'')"
    by (rule expand_nonempty_no_index_panic)
  then show ?thesis
    by (auto simp: buildProps_def rd_GetOkList_def Let_def split: sum.splits)
qed

text \<open>
  C9. \<open>expandStreamAnalyticsJobIdentity\<close> indexes element 0 of its argument. On a
  non-empty list the index is in range, and when the first element is a block with a
  string under \<open>type\<close> the result is a non-nil identity whose type is that string. The
  only call site, in the construction of the payload, calls it only when \<open>GetOk\<close>
  reports the identity as set, so the payload construction never panics on the index.
\<close>

theorem expand_identity_first_element:
  "(identity \<noteq> [] \<longrightarrow>
      expandStreamAnalyticsJobIdentity identity \<noteq> Inl (Panic ''index out of range'')) \<and>
   (map_of b ''type'' = Some (VString s) \<longrightarrow>
      expandStreamAnalyticsJobIdentity (VMap b # rest) =
        Inr (Some \<lparr>identity_Type = Some s, identity_TenantID = None, identity_PrincipalID = None\<rparr>)) \<and>
   buildProps P d jid \<noteq> Inl (Panic ''index out of range'')"
  using expand_nonempty_no_index_panic [of identity] buildProps_no_index_panic [of P d jid]
  by (simp add: expandStreamAnalyticsJobIdentity_def)

theorem expand_identity_first_element_witness:
  "[VMap [(''type'', VString ''SystemAssigned'')]] \<noteq> [] \<and>
   map_of [(''type'', VString ''SystemAssigned'')] ''type'' = Some (VString ''SystemAssigned'') \<and>
   expandStreamAnalyticsJobIdentity [VMap [(''type'', VString ''SystemAssigned'')]] \<noteq>
     Inl (Panic ''index out of range'') \<and>
   expandStreamAnalyticsJobIdentity [VMap [(''type'', VString ''SystemAssigned'')]] =
     Inr (Some \<lparr>identity_Type = Some ''SystemAssigned'', identity_TenantID = None,
                identity_PrincipalID = None\<rparr>)"
  using expand_identity_first_element [of "[VMap [(''type'', VString ''SystemAssigned'')]]"
          "[(''type'', VString ''SystemAssigned'')]" "''SystemAssigned''" "[]"]
  by simp

section \<open>Identifier validation\<close>

text \<open>
  C7. When the identifier parser rejects the identifier string, Read and Delete return
  the parser's error with the trace and the resource data as they were, so before any
  call on the API, and the import validator returns the same error.
\<close>

theorem malformed_id_rejected_before_any_call:
  assumes "parse_StreamingJobID P (rd_Id d) = Inl e"
  shows "resourceStreamAnalyticsJobRead P C tr d = (d, tr, Some e) \<and>
         resourceStreamAnalyticsJobDelete P C tr d = (d, tr, Some e) \<and>
         importerValidate P (rd_Id d) = Some e"
  using assms
  by (simp add: resourceStreamAnalyticsJobRead_def resourceStreamAnalyticsJobDelete_def
      importerValidate_def)

theorem malformed_id_rejected_before_any_call_witness:
  "parse_StreamingJobID exampleDeps (rd_Id (exampleData\<lparr>rd_Id := ''/subscriptions/sub''\<rparr>)) =
     Inl (Err ''parsing the job id'') \<and>
   resourceStreamAnalyticsJobRead exampleDeps
       (stubClients (\<lambda>x. (emptyJob, None)) None None None None None) []
       (exampleData\<lparr>rd_Id := ''/subscriptions/sub''\<rparr>) =
     (exampleData\<lparr>rd_Id := ''/subscriptions/sub''\<rparr>, [], Some (Err ''parsing the job id'')) \<and>
   resourceStreamAnalyticsJobDelete exampleDeps
       (stubClients (\<lambda>x. (emptyJob, None)) None None None None None) []
       (exampleData\<lparr>rd_Id := ''/subscriptions/sub''\<rparr>) =
     (exampleData\<lparr>rd_Id := ''/subscriptions/sub''\<rparr>, [], Some (Err ''parsing the job id'')) \<and>
   importerValidate exampleDeps ''/subscriptions/sub'' = Some (Err ''parsing the job id'')"
proof -
  have h: "parse_StreamingJobID exampleDeps (rd_Id (exampleData\<lparr>rd_Id := ''/subscriptions/sub''\<rparr>)) =
             Inl (Err ''parsing the job id'')"
    by (simp add: exampleDeps_def exampleIdString_def)
  show ?thesis
    using h malformed_id_rejected_before_any_call
            [OF h, of "stubClients (\<lambda>x. (emptyJob, None)) None None None None None" "[]"]
    by simp
qed

section \<open>Read and the not-found response\<close>

text \<open>
  C3. When the API answers Read's Get with an error and the response is a "not found",
  Read returns no error and clears the persisted identifier; when it answers with an
  error and any other response, Read returns an error (the API error wrapped as
  "retrieving").
\<close>

theorem read_not_found_clears_id:
  assumes "parse_StreamingJobID P (rd_Id d) = Inr jid"
    and "Jobs_Get C tr (id_ResourceGroup jid) (id_Name jid) ''transformation'' = (resp, Some err)"
  shows "(ResponseWasNotFound (sj_Response resp) \<longrightarrow>
            resourceStreamAnalyticsJobRead P C tr d =
              (d\<lparr>rd_Id := []\<rparr>,
               tr @ [JobsGet (id_ResourceGroup jid) (id_Name jid) ''transformation''], None)) \<and>
         (\<not> ResponseWasNotFound (sj_Response resp) \<longrightarrow>
            resourceStreamAnalyticsJobRead P C tr d =
              (d, tr @ [JobsGet (id_ResourceGroup jid) (id_Name jid) ''transformation''],
               Some (Errorf ''retrieving %s: %+v'' [ArgJobId jid] err)))"
  using assms
  by (simp add: resourceStreamAnalyticsJobRead_def rd_SetId_def)

theorem read_not_found_clears_id_witness:
  "resourceStreamAnalyticsJobRead exampleDeps
       (stubClients (\<lambda>x. (emptyJob\<lparr>sj_Response := Some 404\<rparr>, Some (Err ''not found'')))
          None None None None None) [] exampleData =
     (exampleData\<lparr>rd_Id := []\<rparr>, [JobsGet ''rg'' ''job'' ''transformation''], None) \<and>
   resourceStreamAnalyticsJobRead exampleDeps
       (stubClients (\<lambda>x. (emptyJob\<lparr>sj_Response := Some 500\<rparr>, Some (Err ''server error'')))
          None None None None None) [] exampleData =
     (exampleData, [JobsGet ''rg'' ''job'' ''transformation''],
      Some (Errorf ''retrieving %s: %+v'' [ArgJobId exampleId] (Err ''server error'')))"
proof -
  have p: "parse_StreamingJobID exampleDeps (rd_Id exampleData) = Inr exampleId"
    by (simp add: exampleDeps_def exampleData_def)
  have g1: "Jobs_Get (stubClients (\<lambda>x. (emptyJob\<lparr>sj_Response := Some 404\<rparr>, Some (Err ''not found'')))
                None None None None None) [] (id_ResourceGroup exampleId) (id_Name exampleId)
              ''transformation'' = (emptyJob\<lparr>sj_Response := Some 404\<rparr>, Some (Err ''not found''))"
    by (simp add: stubClients_def)
  have g2: "Jobs_Get (stubClients (\<lambda>x. (emptyJob\<lparr>sj_Response := Some 500\<rparr>, Some (Err ''server error'')))
                None None None None None) [] (id_ResourceGroup exampleId) (id_Name exampleId)
              ''transformation'' = (emptyJob\<lparr>sj_Response := Some 500\<rparr>, Some (Err ''server error''))"
    by (simp add: stubClients_def)
  show ?thesis
    using read_not_found_clears_id [OF p g1] read_not_found_clears_id [OF p g2]
    by (simp add: ResponseWasNotFound_def exampleId_def)
qed

section \<open>Traces\<close>

lemma read_trace:
  "\<exists>ys. outcomeTrace (resourceStreamAnalyticsJobRead P C tr d) = tr @ ys \<and> list_all isJobsGet ys"
  by (auto simp: resourceStreamAnalyticsJobRead_def outcomeTrace_def Let_def
      split: sum.splits prod.splits option.splits)

lemma createBranch_trace:
  "\<exists>ys. branchTrace (createBranch P C tr d jid props t) =
          tr @ JobsCreateOrReplace (withTransformation props t) (id_ResourceGroup jid) (id_Name jid) # ys \<and>
        (ys = [] \<or> ys = [FutureWaitForCompletionRef])"
  by (auto simp: createBranch_def Let_def split: option.splits)

lemma updateBranch_trace:
  "\<exists>ys. branchTrace (updateBranch C tr d jid props t) =
          tr @ JobsUpdate props (id_ResourceGroup jid) (id_Name jid) # ys \<and>
        (ys = [] \<or>
         Jobs_Update C tr props (id_ResourceGroup jid) (id_Name jid) = None \<and>
         (ys = [JobsGet (id_ResourceGroup jid) (id_Name jid) ''transformation''] \<or>
          (\<exists>n. ys = [JobsGet (id_ResourceGroup jid) (id_Name jid) ''transformation'',
                     TransformationsUpdate t (id_ResourceGroup jid) (id_Name jid) n])))"
  by (auto simp: updateBranch_def Let_def split: option.splits prod.splits)

lemma existenceProbe_new:
  "rd_IsNewResource d \<Longrightarrow>
   branchTrace (case existenceProbe C tr d jid of Inl r \<Rightarrow> Inl r | Inr t \<Rightarrow> Inr (d, t)) =
     tr @ [JobsGet (id_ResourceGroup jid) (id_Name jid) []]"
  by (auto simp: existenceProbe_def Let_def split: option.splits prod.splits)

lemma existenceProbe_old:
  "\<not> rd_IsNewResource d \<Longrightarrow> existenceProbe C tr d jid = Inr tr"
  by (simp add: existenceProbe_def)

text \<open>What the operation does once the probe has let it through and the payload is built.\<close>

lemma branch_then_read_trace:
  assumes "branchTrace b = tr1 @ c # ys"
  shows "\<exists>zs. outcomeTrace (case b of Inl r \<Rightarrow> r
                           | Inr (d', tr2) \<Rightarrow> resourceStreamAnalyticsJobRead P C tr2 d') =
              tr1 @ c # ys @ zs \<and> list_all isJobsGet zs"
proof (cases b)
  case (Inl r)
  with assms show ?thesis by (simp add: outcomeTrace_def)
next
  case (Inr p)
  obtain d' tr2 where p: "p = (d', tr2)" by (cases p)
  from read_trace [of P C tr2 d'] obtain zs where
    "outcomeTrace (resourceStreamAnalyticsJobRead P C tr2 d') = tr2 @ zs" "list_all isJobsGet zs"
    by blast
  with assms Inr p show ?thesis by simp
qed

lemma createUpdate_new_trace:
  assumes "rd_IsNewResource d"
  shows "\<exists>rest. outcomeTrace (resourceStreamAnalyticsJobCreateUpdate P C tr d) =
           tr @ JobsGet (rd_GetString d ''resource_group_name'') (rd_GetString d ''name'') [] # rest \<and>
         list_all (\<lambda>c. \<not> isTransformationsUpdate c \<and>
                       (\<forall>p a b. c = JobsCreateOrReplace p a b \<longrightarrow>
                          inlineTransformation p = Some (Some (buildTransformation d)))) rest \<and>
         length (filter isJobsCreateOrReplace rest) \<le> 1 \<and>
         list_all (\<lambda>c. \<not> mutating c \<or> isJobsCreateOrReplace c) rest"
proof -
  define jid where "jid = NewStreamingJobID (account_SubscriptionId P)
      (rd_GetString d ''resource_group_name'') (rd_GetString d ''name'')"
  have rg: "id_ResourceGroup jid = rd_GetString d ''resource_group_name''"
    and nm: "id_Name jid = rd_GetString d ''name''"
    by (simp_all add: jid_def NewStreamingJobID_def)
  show ?thesis
  proof (cases "existenceProbe C tr d jid")
    case (Inl r)
    with existenceProbe_new [OF assms, of C tr jid]
    show ?thesis
      by (simp add: resourceStreamAnalyticsJobCreateUpdate_def jid_def [symmetric] outcomeTrace_def rg nm)
  next
    case (Inr tr1)
    with existenceProbe_new [OF assms, of C tr jid]
    have tr1: "tr1 = tr @ [JobsGet (rd_GetString d ''resource_group_name'') (rd_GetString d ''name'') []]"
      by (simp add: rg nm)
    show ?thesis
    proof (cases "buildProps P d jid")
      case (Inl p)
      with Inr tr1 show ?thesis
        by (simp add: resourceStreamAnalyticsJobCreateUpdate_def jid_def [symmetric] outcomeTrace_def)
    next
      case (Inr props)
      have sp: "\<exists>q. sj_Properties props = Some q"
        using Inr by (auto simp: buildProps_def Let_def rd_GetOkList_def split: if_splits sum.splits)
      then have inl: "inlineTransformation (withTransformation props (buildTransformation d)) =
                  Some (Some (buildTransformation d))"
        by (auto simp: inlineTransformation_def withTransformation_def)
      from createBranch_trace [of P C tr1 d jid props "buildTransformation d"]
      obtain ys where ys:
        "branchTrace (createBranch P C tr1 d jid props (buildTransformation d)) =
           tr1 @ JobsCreateOrReplace (withTransformation props (buildTransformation d))
                   (id_ResourceGroup jid) (id_Name jid) # ys"
        "ys = [] \<or> ys = [FutureWaitForCompletionRef]"
        by blast
      from branch_then_read_trace [OF ys(1), of P C] obtain zs where zs:
        "outcomeTrace (case createBranch P C tr1 d jid props (buildTransformation d) of
                         Inl r \<Rightarrow> r
                       | Inr (d', tr2) \<Rightarrow> resourceStreamAnalyticsJobRead P C tr2 d') =
           tr1 @ JobsCreateOrReplace (withTransformation props (buildTransformation d))
                   (id_ResourceGroup jid) (id_Name jid) # ys @ zs"
        "list_all isJobsGet zs"
        by blast
      have cu: "resourceStreamAnalyticsJobCreateUpdate P C tr d =
                  (case createBranch P C tr1 d jid props (buildTransformation d) of
                     Inl r \<Rightarrow> r
                   | Inr (d', tr2) \<Rightarrow> resourceStreamAnalyticsJobRead P C tr2 d')"
        using assms \<open>existenceProbe C tr d jid = Inr tr1\<close> Inr
        by (simp add: resourceStreamAnalyticsJobCreateUpdate_def jid_def [symmetric])
      have g1: "list_all (\<lambda>c. \<not> isTransformationsUpdate c \<and>
                       (\<forall>p a b. c = JobsCreateOrReplace p a b \<longrightarrow>
                          inlineTransformation p = Some (Some (buildTransformation d)))) zs"
        and g2: "filter isJobsCreateOrReplace zs = []"
        and g3: "list_all (\<lambda>c. \<not> mutating c \<or> isJobsCreateOrReplace c) zs"
        using zs(2) by (induction zs; auto elim: isJobsGet.elims)+
      show ?thesis
        using ys(2) zs(1) g1 g2 g3 inl
        by (auto simp: cu tr1)
    qed
  qed
qed

lemma buildProps_no_transformation:
  assumes "buildProps P d jid = Inr props"
  shows "inlineTransformation props = Some None"
  using assms
  by (auto simp: buildProps_def Let_def rd_GetOkList_def inlineTransformation_def
      split: if_splits sum.splits)

lemma createUpdate_existing_trace:
  assumes "\<not> rd_IsNewResource d"
    and "buildProps P d (NewStreamingJobID (account_SubscriptionId P)
           (rd_GetString d ''resource_group_name'') (rd_GetString d ''name'')) = Inr props"
  shows "\<exists>rest. outcomeTrace (resourceStreamAnalyticsJobCreateUpdate P C tr d) =
           tr @ JobsUpdate props (rd_GetString d ''resource_group_name'') (rd_GetString d ''name'') # rest \<and>
         list_all (\<lambda>c. \<not> isJobsCreateOrReplace c \<and>
                       (isTransformationsUpdate c \<longrightarrow>
                          Jobs_Update C tr props (rd_GetString d ''resource_group_name'')
                            (rd_GetString d ''name'') = None \<and>
                          (\<exists>n. c = TransformationsUpdate (buildTransformation d)
                                     (rd_GetString d ''resource_group_name'')
                                     (rd_GetString d ''name'') n))) rest"
proof -
  define jid where "jid = NewStreamingJobID (account_SubscriptionId P)
      (rd_GetString d ''resource_group_name'') (rd_GetString d ''name'')"
  have rg: "id_ResourceGroup jid = rd_GetString d ''resource_group_name''"
    and nm: "id_Name jid = rd_GetString d ''name''"
    by (simp_all add: jid_def NewStreamingJobID_def)
  have bp: "buildProps P d jid = Inr props"
    using assms(2) by (simp add: jid_def)
  have cu: "resourceStreamAnalyticsJobCreateUpdate P C tr d =
              (case updateBranch C tr d jid props (buildTransformation d) of
                 Inl r \<Rightarrow> r
               | Inr (d', tr2) \<Rightarrow> resourceStreamAnalyticsJobRead P C tr2 d')"
    using assms(1) bp existenceProbe_old [OF assms(1), of C tr jid]
    by (simp add: resourceStreamAnalyticsJobCreateUpdate_def jid_def [symmetric])
  from updateBranch_trace [of C tr d jid props "buildTransformation d"]
  obtain ys where ys:
    "branchTrace (updateBranch C tr d jid props (buildTransformation d)) =
       tr @ JobsUpdate props (id_ResourceGroup jid) (id_Name jid) # ys"
    "ys = [] \<or>
     Jobs_Update C tr props (id_ResourceGroup jid) (id_Name jid) = None \<and>
     (ys = [JobsGet (id_ResourceGroup jid) (id_Name jid) ''transformation''] \<or>
      (\<exists>n. ys = [JobsGet (id_ResourceGroup jid) (id_Name jid) ''transformation'',
                 TransformationsUpdate (buildTransformation d) (id_ResourceGroup jid) (id_Name jid) n]))"
    by blast
  from branch_then_read_trace [OF ys(1), of P C] obtain zs where zs:
    "outcomeTrace (case updateBranch C tr d jid props (buildTransformation d) of
                     Inl r \<Rightarrow> r
                   | Inr (d', tr2) \<Rightarrow> resourceStreamAnalyticsJobRead P C tr2 d') =
       tr @ JobsUpdate props (id_ResourceGroup jid) (id_Name jid) # ys @ zs"
    "list_all isJobsGet zs"
    by blast
  have g: "list_all (\<lambda>c. \<not> isJobsCreateOrReplace c \<and> \<not> isTransformationsUpdate c) zs"
    using zs(2) by (induction zs) (auto elim: isJobsGet.elims)
  then have g': "list_all (\<lambda>c. \<not> isJobsCreateOrReplace c \<and>
                       (isTransformationsUpdate c \<longrightarrow>
                          Jobs_Update C tr props (rd_GetString d ''resource_group_name'')
                            (rd_GetString d ''name'') = None \<and>
                          (\<exists>n. c = TransformationsUpdate (buildTransformation d)
                                     (rd_GetString d ''resource_group_name'')
                                     (rd_GetString d ''name'') n))) zs"
    by (simp add: list_all_iff)
  show ?thesis
    using ys(2) zs(1) g'
    by (auto simp: cu rg nm)
qed

section \<open>Create: the existence probe\<close>

text \<open>
  C1. Create on a new resource first makes the existence probe, a Get on the candidate
  identifier, so every mutating call comes after it. When the probe's response carries a
  non-empty identifier, the probe is the only call of the invocation (no create and no
  update: the remote state is as it was), the resource data is unchanged and Create
  returns an error; that error is the "already exists" error whenever the probe itself
  did not fail with an error other than "not found".
\<close>

theorem create_probes_before_mutating:
  assumes "rd_IsNewResource d"
  shows "(\<exists>rest. outcomeTrace (resourceStreamAnalyticsJobCreateUpdate P C tr d) =
            tr @ JobsGet (rd_GetString d ''resource_group_name'') (rd_GetString d ''name'') [] # rest) \<and>
         \<not> mutating (JobsGet (rd_GetString d ''resource_group_name'') (rd_GetString d ''name'') []) \<and>
         (\<forall>existing err existingId.
            Jobs_Get C tr (rd_GetString d ''resource_group_name'') (rd_GetString d ''name'') [] =
              (existing, err) \<and>
            sj_ID existing = Some existingId \<and> existingId \<noteq> [] \<longrightarrow>
              outcomeTrace (resourceStreamAnalyticsJobCreateUpdate P C tr d) =
                tr @ [JobsGet (rd_GetString d ''resource_group_name'') (rd_GetString d ''name'') []] \<and>
              outcomeData (resourceStreamAnalyticsJobCreateUpdate P C tr d) = d \<and>
              outcomeError (resourceStreamAnalyticsJobCreateUpdate P C tr d) \<noteq> None \<and>
              (err = None \<or> ResponseWasNotFound (sj_Response existing) \<longrightarrow>
                 outcomeError (resourceStreamAnalyticsJobCreateUpdate P C tr d) =
                   Some (ImportAsExistsError ''azurerm_stream_analytics_job'' existingId)))"
proof -
  have first: "\<exists>rest. outcomeTrace (resourceStreamAnalyticsJobCreateUpdate P C tr d) =
            tr @ JobsGet (rd_GetString d ''resource_group_name'') (rd_GetString d ''name'') [] # rest"
    using createUpdate_new_trace [OF assms, of P C tr] by blast
  have found: "\<forall>existing err existingId.
            Jobs_Get C tr (rd_GetString d ''resource_group_name'') (rd_GetString d ''name'') [] =
              (existing, err) \<and>
            sj_ID existing = Some existingId \<and> existingId \<noteq> [] \<longrightarrow>
              outcomeTrace (resourceStreamAnalyticsJobCreateUpdate P C tr d) =
                tr @ [JobsGet (rd_GetString d ''resource_group_name'') (rd_GetString d ''name'') []] \<and>
              outcomeData (resourceStreamAnalyticsJobCreateUpdate P C tr d) = d \<and>
              outcomeError (resourceStreamAnalyticsJobCreateUpdate P C tr d) \<noteq> None \<and>
              (err = None \<or> ResponseWasNotFound (sj_Response existing) \<longrightarrow>
                 outcomeError (resourceStreamAnalyticsJobCreateUpdate P C tr d) =
                   Some (ImportAsExistsError ''azurerm_stream_analytics_job'' existingId))"
    using assms
    by (auto simp: resourceStreamAnalyticsJobCreateUpdate_def existenceProbe_def
        NewStreamingJobID_def outcomeTrace_def outcomeData_def outcomeError_def Let_def
        split: option.splits)
  from first found show ?thesis by simp
qed

theorem create_probes_before_mutating_witness:
  "rd_IsNewResource newData \<and>
   Jobs_Get (stubClients (\<lambda>e. (exampleReply, None)) None None None None None) []
     (rd_GetString newData ''resource_group_name'') (rd_GetString newData ''name'') [] =
     (exampleReply, None) \<and>
   sj_ID exampleReply = Some exampleIdString \<and> exampleIdString \<noteq> [] \<and>
   resourceStreamAnalyticsJobCreateUpdate exampleDeps
       (stubClients (\<lambda>e. (exampleReply, None)) None None None None None) [] newData =
     (newData, [JobsGet ''rg'' ''job'' []],
      Some (ImportAsExistsError ''azurerm_stream_analytics_job'' exampleIdString))"
proof -
  have new: "rd_IsNewResource newData"
    by (simp add: newData_def)
  have get: "Jobs_Get (stubClients (\<lambda>e. (exampleReply, None)) None None None None None) []
     (rd_GetString newData ''resource_group_name'') (rd_GetString newData ''name'') [] =
     (exampleReply, None)"
    by (simp add: stubClients_def)
  have found: "sj_ID exampleReply = Some exampleIdString" "exampleIdString \<noteq> []"
    by (simp_all add: exampleReply_def exampleIdString_def)
  have names: "rd_GetString newData ''resource_group_name'' = ''rg''"
    "rd_GetString newData ''name'' = ''job''"
    by (simp_all add: rd_GetString_def newData_def exampleData_def)
  from create_probes_before_mutating [OF new, of exampleDeps
      "stubClients (\<lambda>e. (exampleReply, None)) None None None None None" "[]"] get found
  have "outcomeTrace (resourceStreamAnalyticsJobCreateUpdate exampleDeps
          (stubClients (\<lambda>e. (exampleReply, None)) None None None None None) [] newData) =
          [JobsGet ''rg'' ''job'' []] \<and>
        outcomeData (resourceStreamAnalyticsJobCreateUpdate exampleDeps
          (stubClients (\<lambda>e. (exampleReply, None)) None None None None None) [] newData) = newData \<and>
        outcomeError (resourceStreamAnalyticsJobCreateUpdate exampleDeps
          (stubClients (\<lambda>e. (exampleReply, None)) None None None None None) [] newData) =
          Some (ImportAsExistsError ''azurerm_stream_analytics_job'' exampleIdString)"
    by (simp add: names)
  then have "resourceStreamAnalyticsJobCreateUpdate exampleDeps
       (stubClients (\<lambda>e. (exampleReply, None)) None None None None None) [] newData =
     (newData, [JobsGet ''rg'' ''job'' []],
      Some (ImportAsExistsError ''azurerm_stream_analytics_job'' exampleIdString))"
    by (simp add: outcomeTrace_def outcomeData_def outcomeError_def prod_eq_iff)
  with new get found show ?thesis by simp
qed

section \<open>Update: the two phases\<close>

lemma createUpdate_existing_unfold:
  assumes "\<not> rd_IsNewResource d"
    and "buildProps P d (NewStreamingJobID (account_SubscriptionId P)
           (rd_GetString d ''resource_group_name'') (rd_GetString d ''name'')) = Inr props"
  shows "resourceStreamAnalyticsJobCreateUpdate P C tr d =
           (case updateBranch C tr d (NewStreamingJobID (account_SubscriptionId P)
                    (rd_GetString d ''resource_group_name'') (rd_GetString d ''name''))
                   props (buildTransformation d) of
              Inl r \<Rightarrow> r
            | Inr (d', tr2) \<Rightarrow> resourceStreamAnalyticsJobRead P C tr2 d')"
  using assms existenceProbe_old [OF assms(1), of C tr]
  by (simp add: resourceStreamAnalyticsJobCreateUpdate_def)

lemma updateBranch_parent_fails:
  assumes "Jobs_Update C tr props (id_ResourceGroup jid) (id_Name jid) = Some e"
  shows "updateBranch C tr d jid props t =
           Inl (d, tr @ [JobsUpdate props (id_ResourceGroup jid) (id_Name jid)],
                Some (Errorf ''updating %s: %+v'' [ArgJobId jid] e))"
  using assms by (simp add: updateBranch_def Let_def)

lemma updateBranch_second_phase:
  assumes "Jobs_Update C tr props (id_ResourceGroup jid) (id_Name jid) = None"
    and "Jobs_Get C (tr @ [JobsUpdate props (id_ResourceGroup jid) (id_Name jid)])
           (id_ResourceGroup jid) (id_Name jid) ''transformation'' = (job, None)"
    and "sj_Properties job = Some jobProps"
    and "props_Transformation jobProps = Some readTransformation"
    and "transformation_Name readTransformation = Some n"
  shows "branchTrace (updateBranch C tr d jid props t) =
           tr @ [JobsUpdate props (id_ResourceGroup jid) (id_Name jid),
                 JobsGet (id_ResourceGroup jid) (id_Name jid) ''transformation'',
                 TransformationsUpdate t (id_ResourceGroup jid) (id_Name jid) n]"
  using assms by (simp add: updateBranch_def Let_def split: option.splits)

lemma updateBranch_nothing_to_update:
  assumes "Jobs_Update C tr props (id_ResourceGroup jid) (id_Name jid) = None"
    and "Jobs_Get C (tr @ [JobsUpdate props (id_ResourceGroup jid) (id_Name jid)])
           (id_ResourceGroup jid) (id_Name jid) ''transformation'' = (job, None)"
    and "sj_Properties job = Some jobProps"
    and "props_Transformation jobProps = None"
  shows "branchTrace (updateBranch C tr d jid props t) =
           tr @ [JobsUpdate props (id_ResourceGroup jid) (id_Name jid),
                 JobsGet (id_ResourceGroup jid) (id_Name jid) ''transformation'']"
  using assms by (simp add: updateBranch_def Let_def)

lemma branch_then_read_exact:
  assumes "branchTrace b = tr1"
  shows "\<exists>zs. outcomeTrace (case b of Inl r \<Rightarrow> r
                           | Inr (d', tr2) \<Rightarrow> resourceStreamAnalyticsJobRead P C tr2 d') =
              tr1 @ zs \<and> list_all isJobsGet zs"
proof (cases b)
  case (Inl r)
  with assms show ?thesis by (simp add: outcomeTrace_def)
next
  case (Inr p)
  obtain d' tr2 where p: "p = (d', tr2)" by (cases p)
  from read_trace [of P C tr2 d'] obtain zs where
    "outcomeTrace (resourceStreamAnalyticsJobRead P C tr2 d') = tr2 @ zs" "list_all isJobsGet zs"
    by blast
  with assms Inr p show ?thesis by simp
qed

lemma createUpdate_parent_fails:
  assumes "\<not> rd_IsNewResource d"
    and "buildProps P d (NewStreamingJobID (account_SubscriptionId P)
           (rd_GetString d ''resource_group_name'') (rd_GetString d ''name'')) = Inr props"
    and "Jobs_Update C tr props (rd_GetString d ''resource_group_name'') (rd_GetString d ''name'') = Some e"
  shows "resourceStreamAnalyticsJobCreateUpdate P C tr d =
           (d, tr @ [JobsUpdate props (rd_GetString d ''resource_group_name'') (rd_GetString d ''name'')],
            Some (Errorf ''updating %s: %+v''
                    [ArgJobId (NewStreamingJobID (account_SubscriptionId P)
                       (rd_GetString d ''resource_group_name'') (rd_GetString d ''name''))] e))"
proof -
  define jid where "jid = NewStreamingJobID (account_SubscriptionId P)
      (rd_GetString d ''resource_group_name'') (rd_GetString d ''name'')"
  have rg: "id_ResourceGroup jid = rd_GetString d ''resource_group_name''"
    and nm: "id_Name jid = rd_GetString d ''name''"
    by (simp_all add: jid_def NewStreamingJobID_def)
  from assms(3) have "Jobs_Update C tr props (id_ResourceGroup jid) (id_Name jid) = Some e"
    by (simp add: rg nm)
  from updateBranch_parent_fails [OF this, of d "buildTransformation d"]
  show ?thesis
    by (simp add: createUpdate_existing_unfold [OF assms(1,2)] jid_def [symmetric] rg nm)
qed

lemma createUpdate_second_phase:
  assumes "\<not> rd_IsNewResource d"
    and "buildProps P d (NewStreamingJobID (account_SubscriptionId P)
           (rd_GetString d ''resource_group_name'') (rd_GetString d ''name'')) = Inr props"
    and "Jobs_Update C tr props (rd_GetString d ''resource_group_name'') (rd_GetString d ''name'') = None"
    and "Jobs_Get C (tr @ [JobsUpdate props (rd_GetString d ''resource_group_name'') (rd_GetString d ''name'')])
           (rd_GetString d ''resource_group_name'') (rd_GetString d ''name'') ''transformation'' = (job, None)"
    and "sj_Properties job = Some jobProps"
  shows "(\<forall>readTransformation n.
            props_Transformation jobProps = Some readTransformation \<and>
            transformation_Name readTransformation = Some n \<longrightarrow>
            (\<exists>rest. outcomeTrace (resourceStreamAnalyticsJobCreateUpdate P C tr d) =
               tr @ [JobsUpdate props (rd_GetString d ''resource_group_name'') (rd_GetString d ''name''),
                     JobsGet (rd_GetString d ''resource_group_name'') (rd_GetString d ''name'') ''transformation'',
                     TransformationsUpdate (buildTransformation d)
                       (rd_GetString d ''resource_group_name'') (rd_GetString d ''name'') n] @ rest \<and>
               list_all isJobsGet rest)) \<and>
         (props_Transformation jobProps = None \<longrightarrow>
            (\<exists>rest. outcomeTrace (resourceStreamAnalyticsJobCreateUpdate P C tr d) =
               tr @ [JobsUpdate props (rd_GetString d ''resource_group_name'') (rd_GetString d ''name''),
                     JobsGet (rd_GetString d ''resource_group_name'') (rd_GetString d ''name'') ''transformation'']
                  @ rest \<and>
               list_all isJobsGet rest))"
proof -
  define jid where "jid = NewStreamingJobID (account_SubscriptionId P)
      (rd_GetString d ''resource_group_name'') (rd_GetString d ''name'')"
  have rg: "id_ResourceGroup jid = rd_GetString d ''resource_group_name''"
    and nm: "id_Name jid = rd_GetString d ''name''"
    by (simp_all add: jid_def NewStreamingJobID_def)
  have u: "Jobs_Update C tr props (id_ResourceGroup jid) (id_Name jid) = None"
    using assms(3) by (simp add: rg nm)
  have g: "Jobs_Get C (tr @ [JobsUpdate props (id_ResourceGroup jid) (id_Name jid)])
           (id_ResourceGroup jid) (id_Name jid) ''transformation'' = (job, None)"
    using assms(4) by (simp add: rg nm)
  note cu = createUpdate_existing_unfold [OF assms(1,2), of C tr, folded jid_def]
  show ?thesis
  proof (intro conjI allI impI)
    fix readTransformation n
    assume a: "props_Transformation jobProps = Some readTransformation \<and>
               transformation_Name readTransformation = Some n"
    from updateBranch_second_phase [OF u g assms(5), of readTransformation n d "buildTransformation d"] a
    have "branchTrace (updateBranch C tr d jid props (buildTransformation d)) =
           tr @ [JobsUpdate props (id_ResourceGroup jid) (id_Name jid),
                 JobsGet (id_ResourceGroup jid) (id_Name jid) ''transformation'',
                 TransformationsUpdate (buildTransformation d) (id_ResourceGroup jid) (id_Name jid) n]"
      by simp
    from branch_then_read_exact [OF this, of P C]
    show "\<exists>rest. outcomeTrace (resourceStreamAnalyticsJobCreateUpdate P C tr d) =
               tr @ [JobsUpdate props (rd_GetString d ''resource_group_name'') (rd_GetString d ''name''),
                     JobsGet (rd_GetString d ''resource_group_name'') (rd_GetString d ''name'') ''transformation'',
                     TransformationsUpdate (buildTransformation d)
                       (rd_GetString d ''resource_group_name'') (rd_GetString d ''name'') n] @ rest \<and>
               list_all isJobsGet rest"
      by (simp add: cu rg nm)
  next
    assume a: "props_Transformation jobProps = None"
    from updateBranch_nothing_to_update [OF u g assms(5) a, of d "buildTransformation d"]
    have "branchTrace (updateBranch C tr d jid props (buildTransformation d)) =
           tr @ [JobsUpdate props (id_ResourceGroup jid) (id_Name jid),
                 JobsGet (id_ResourceGroup jid) (id_Name jid) ''transformation'']" .
    from branch_then_read_exact [OF this, of P C]
    show "\<exists>rest. outcomeTrace (resourceStreamAnalyticsJobCreateUpdate P C tr d) =
               tr @ [JobsUpdate props (rd_GetString d ''resource_group_name'') (rd_GetString d ''name''),
                     JobsGet (rd_GetString d ''resource_group_name'') (rd_GetString d ''name'') ''transformation'']
                  @ rest \<and>
               list_all isJobsGet rest"
      by (simp add: cu rg nm)
  qed
qed

lemma createUpdate_create_issued:
  assumes "rd_IsNewResource d"
    and "Jobs_Get C tr (rd_GetString d ''resource_group_name'') (rd_GetString d ''name'') [] =
           (existing, err)"
    and "err = None \<or> ResponseWasNotFound (sj_Response existing)"
    and "sj_ID existing = None \<or> sj_ID existing = Some []"
    and "buildProps P d (NewStreamingJobID (account_SubscriptionId P)
           (rd_GetString d ''resource_group_name'') (rd_GetString d ''name'')) = Inr props"
  shows "\<exists>rest. outcomeTrace (resourceStreamAnalyticsJobCreateUpdate P C tr d) =
           tr @ [JobsGet (rd_GetString d ''resource_group_name'') (rd_GetString d ''name'') [],
                 JobsCreateOrReplace (withTransformation props (buildTransformation d))
                   (rd_GetString d ''resource_group_name'') (rd_GetString d ''name'')] @ rest \<and>
         list_all (\<lambda>c. \<not> mutating c) rest \<and>
         inlineTransformation (withTransformation props (buildTransformation d)) =
           Some (Some (buildTransformation d))"
proof -
  define jid where "jid = NewStreamingJobID (account_SubscriptionId P)
      (rd_GetString d ''resource_group_name'') (rd_GetString d ''name'')"
  have rg: "id_ResourceGroup jid = rd_GetString d ''resource_group_name''"
    and nm: "id_Name jid = rd_GetString d ''name''"
    by (simp_all add: jid_def NewStreamingJobID_def)
  define tr1 where "tr1 = tr @ [JobsGet (rd_GetString d ''resource_group_name'')
      (rd_GetString d ''name'') []]"
  have probe: "existenceProbe C tr d jid = Inr tr1"
    using assms(1-4)
    by (auto simp: existenceProbe_def rg nm tr1_def Let_def split: option.splits)
  have bp: "buildProps P d jid = Inr props"
    using assms(5) by (simp add: jid_def)
  have cu: "resourceStreamAnalyticsJobCreateUpdate P C tr d =
              (case createBranch P C tr1 d jid props (buildTransformation d) of
                 Inl r \<Rightarrow> r
               | Inr (d', tr2) \<Rightarrow> resourceStreamAnalyticsJobRead P C tr2 d')"
    using assms(1) probe bp
    by (simp add: resourceStreamAnalyticsJobCreateUpdate_def jid_def [symmetric])
  have sp: "\<exists>q. sj_Properties props = Some q"
    using bp by (auto simp: buildProps_def Let_def rd_GetOkList_def split: if_splits sum.splits)
  then have inl: "inlineTransformation (withTransformation props (buildTransformation d)) =
              Some (Some (buildTransformation d))"
    by (auto simp: inlineTransformation_def withTransformation_def)
  from createBranch_trace [of P C tr1 d jid props "buildTransformation d"]
  obtain ys where ys:
    "branchTrace (createBranch P C tr1 d jid props (buildTransformation d)) =
       tr1 @ JobsCreateOrReplace (withTransformation props (buildTransformation d))
               (id_ResourceGroup jid) (id_Name jid) # ys"
    "ys = [] \<or> ys = [FutureWaitForCompletionRef]"
    by blast
  from branch_then_read_trace [OF ys(1), of P C] obtain zs where zs:
    "outcomeTrace (case createBranch P C tr1 d jid props (buildTransformation d) of
                     Inl r \<Rightarrow> r
                   | Inr (d', tr2) \<Rightarrow> resourceStreamAnalyticsJobRead P C tr2 d') =
       tr1 @ JobsCreateOrReplace (withTransformation props (buildTransformation d))
               (id_ResourceGroup jid) (id_Name jid) # ys @ zs"
    "list_all isJobsGet zs"
    by blast
  have quiet: "list_all (\<lambda>c. \<not> mutating c) zs"
    using zs(2) by (induction zs) (auto elim: isJobsGet.elims)
  have "outcomeTrace (resourceStreamAnalyticsJobCreateUpdate P C tr d) =
           tr @ [JobsGet (rd_GetString d ''resource_group_name'') (rd_GetString d ''name'') [],
                 JobsCreateOrReplace (withTransformation props (buildTransformation d))
                   (rd_GetString d ''resource_group_name'') (rd_GetString d ''name'')] @ (ys @ zs)"
    using zs(1) by (simp add: cu tr1_def rg nm)
  moreover have "list_all (\<lambda>c. \<not> mutating c) (ys @ zs)"
    using ys(2) quiet by auto
  ultimately show ?thesis using inl by blast
qed

text \<open>
  C2. With an existing identifier, once the payload is built, the first call of
  create-or-update is the update of the job, and its payload carries no transformation.
  When that update fails the invocation ends there, with the error wrapped as
  "updating", and no call on the transformation endpoint is made. When it succeeds the
  job is read back, and if the job read back has a transformation the third call is the
  update on the transformation endpoint, with the transformation built from the
  configuration and under the name read back; if it has none there is nothing to update.
  Whatever follows is a Get. On a new resource whose probe finds nothing, the call after
  the probe is the one create call, whose payload carries the transformation inline;
  no other mutating call follows, so none on the transformation endpoint.
\<close>

theorem update_is_two_phase:
  "(\<not> rd_IsNewResource d \<and>
    buildProps P d (NewStreamingJobID (account_SubscriptionId P)
      (rd_GetString d ''resource_group_name'') (rd_GetString d ''name'')) = Inr props \<longrightarrow>
      inlineTransformation props = Some None \<and>
      (\<exists>rest. outcomeTrace (resourceStreamAnalyticsJobCreateUpdate P C tr d) =
           tr @ JobsUpdate props (rd_GetString d ''resource_group_name'') (rd_GetString d ''name'') # rest \<and>
         list_all (\<lambda>c. \<not> isJobsCreateOrReplace c \<and>
                       (isTransformationsUpdate c \<longrightarrow>
                          Jobs_Update C tr props (rd_GetString d ''resource_group_name'')
                            (rd_GetString d ''name'') = None \<and>
                          (\<exists>n. c = TransformationsUpdate (buildTransformation d)
                                     (rd_GetString d ''resource_group_name'')
                                     (rd_GetString d ''name'') n))) rest) \<and>
      (\<forall>e. Jobs_Update C tr props (rd_GetString d ''resource_group_name'')
              (rd_GetString d ''name'') = Some e \<longrightarrow>
         resourceStreamAnalyticsJobCreateUpdate P C tr d =
           (d, tr @ [JobsUpdate props (rd_GetString d ''resource_group_name'') (rd_GetString d ''name'')],
            Some (Errorf ''updating %s: %+v''
                    [ArgJobId (NewStreamingJobID (account_SubscriptionId P)
                       (rd_GetString d ''resource_group_name'') (rd_GetString d ''name''))] e))) \<and>
      (\<forall>job jobProps.
         Jobs_Update C tr props (rd_GetString d ''resource_group_name'')
           (rd_GetString d ''name'') = None \<and>
         Jobs_Get C (tr @ [JobsUpdate props (rd_GetString d ''resource_group_name'')
                             (rd_GetString d ''name'')])
           (rd_GetString d ''resource_group_name'') (rd_GetString d ''name'') ''transformation'' =
           (job, None) \<and>
         sj_Properties job = Some jobProps \<longrightarrow>
         (\<forall>readTransformation n.
            props_Transformation jobProps = Some readTransformation \<and>
            transformation_Name readTransformation = Some n \<longrightarrow>
            (\<exists>rest. outcomeTrace (resourceStreamAnalyticsJobCreateUpdate P C tr d) =
               tr @ [JobsUpdate props (rd_GetString d ''resource_group_name'') (rd_GetString d ''name''),
                     JobsGet (rd_GetString d ''resource_group_name'') (rd_GetString d ''name'') ''transformation'',
                     TransformationsUpdate (buildTransformation d)
                       (rd_GetString d ''resource_group_name'') (rd_GetString d ''name'') n] @ rest \<and>
               list_all isJobsGet rest)) \<and>
         (props_Transformation jobProps = None \<longrightarrow>
            (\<exists>rest. outcomeTrace (resourceStreamAnalyticsJobCreateUpdate P C tr d) =
               tr @ [JobsUpdate props (rd_GetString d ''resource_group_name'') (rd_GetString d ''name''),
                     JobsGet (rd_GetString d ''resource_group_name'') (rd_GetString d ''name'') ''transformation'']
                  @ rest \<and>
               list_all isJobsGet rest)))) \<and>
   (rd_IsNewResource d \<longrightarrow>
      (\<exists>rest. outcomeTrace (resourceStreamAnalyticsJobCreateUpdate P C tr d) =
           tr @ JobsGet (rd_GetString d ''resource_group_name'') (rd_GetString d ''name'') [] # rest \<and>
         list_all (\<lambda>c. \<not> isTransformationsUpdate c \<and>
                       (\<forall>p a b. c = JobsCreateOrReplace p a b \<longrightarrow>
                          inlineTransformation p = Some (Some (buildTransformation d)))) rest \<and>
         length (filter isJobsCreateOrReplace rest) \<le> 1 \<and>
         list_all (\<lambda>c. \<not> mutating c \<or> isJobsCreateOrReplace c) rest) \<and>
      (\<forall>existing err payload.
         Jobs_Get C tr (rd_GetString d ''resource_group_name'') (rd_GetString d ''name'') [] =
           (existing, err) \<and>
         (err = None \<or> ResponseWasNotFound (sj_Response existing)) \<and>
         (sj_ID existing = None \<or> sj_ID existing = Some []) \<and>
         buildProps P d (NewStreamingJobID (account_SubscriptionId P)
           (rd_GetString d ''resource_group_name'') (rd_GetString d ''name'')) = Inr payload \<longrightarrow>
         (\<exists>rest. outcomeTrace (resourceStreamAnalyticsJobCreateUpdate P C tr d) =
            tr @ [JobsGet (rd_GetString d ''resource_group_name'') (rd_GetString d ''name'') [],
                  JobsCreateOrReplace (withTransformation payload (buildTransformation d))
                    (rd_GetString d ''resource_group_name'') (rd_GetString d ''name'')] @ rest \<and>
            list_all (\<lambda>c. \<not> mutating c) rest \<and>
            inlineTransformation (withTransformation payload (buildTransformation d)) =
              Some (Some (buildTransformation d)))))"
proof (intro conjI impI)
  assume a: "\<not> rd_IsNewResource d \<and>
    buildProps P d (NewStreamingJobID (account_SubscriptionId P)
      (rd_GetString d ''resource_group_name'') (rd_GetString d ''name'')) = Inr props"
  then have old: "\<not> rd_IsNewResource d"
    and bp: "buildProps P d (NewStreamingJobID (account_SubscriptionId P)
      (rd_GetString d ''resource_group_name'') (rd_GetString d ''name'')) = Inr props"
    by simp_all
  show "inlineTransformation props = Some None"
    using buildProps_no_transformation [OF bp] .
  show "\<exists>rest. outcomeTrace (resourceStreamAnalyticsJobCreateUpdate P C tr d) =
           tr @ JobsUpdate props (rd_GetString d ''resource_group_name'') (rd_GetString d ''name'') # rest \<and>
         list_all (\<lambda>c. \<not> isJobsCreateOrReplace c \<and>
                       (isTransformationsUpdate c \<longrightarrow>
                          Jobs_Update C tr props (rd_GetString d ''resource_group_name'')
                            (rd_GetString d ''name'') = None \<and>
                          (\<exists>n. c = TransformationsUpdate (buildTransformation d)
                                     (rd_GetString d ''resource_group_name'')
                                     (rd_GetString d ''name'') n))) rest"
    using createUpdate_existing_trace [OF old bp] .
  show "\<forall>e. Jobs_Update C tr props (rd_GetString d ''resource_group_name'')
              (rd_GetString d ''name'') = Some e \<longrightarrow>
         resourceStreamAnalyticsJobCreateUpdate P C tr d =
           (d, tr @ [JobsUpdate props (rd_GetString d ''resource_group_name'') (rd_GetString d ''name'')],
            Some (Errorf ''updating %s: %+v''
                    [ArgJobId (NewStreamingJobID (account_SubscriptionId P)
                       (rd_GetString d ''resource_group_name'') (rd_GetString d ''name''))] e))"
    using createUpdate_parent_fails [OF old bp] by blast
  show "\<forall>job jobProps.
         Jobs_Update C tr props (rd_GetString d ''resource_group_name'')
           (rd_GetString d ''name'') = None \<and>
         Jobs_Get C (tr @ [JobsUpdate props (rd_GetString d ''resource_group_name'')
                             (rd_GetString d ''name'')])
           (rd_GetString d ''resource_group_name'') (rd_GetString d ''name'') ''transformation'' =
           (job, None) \<and>
         sj_Properties job = Some jobProps \<longrightarrow>
         (\<forall>readTransformation n.
            props_Transformation jobProps = Some readTransformation \<and>
            transformation_Name readTransformation = Some n \<longrightarrow>
            (\<exists>rest. outcomeTrace (resourceStreamAnalyticsJobCreateUpdate P C tr d) =
               tr @ [JobsUpdate props (rd_GetString d ''resource_group_name'') (rd_GetString d ''name''),
                     JobsGet (rd_GetString d ''resource_group_name'') (rd_GetString d ''name'') ''transformation'',
                     TransformationsUpdate (buildTransformation d)
                       (rd_GetString d ''resource_group_name'') (rd_GetString d ''name'') n] @ rest \<and>
               list_all isJobsGet rest)) \<and>
         (props_Transformation jobProps = None \<longrightarrow>
            (\<exists>rest. outcomeTrace (resourceStreamAnalyticsJobCreateUpdate P C tr d) =
               tr @ [JobsUpdate props (rd_GetString d ''resource_group_name'') (rd_GetString d ''name''),
                     JobsGet (rd_GetString d ''resource_group_name'') (rd_GetString d ''name'') ''transformation'']
                  @ rest \<and>
               list_all isJobsGet rest))"
    using createUpdate_second_phase [OF old bp] by blast
next
  assume new: "rd_IsNewResource d"
  show "\<exists>rest. outcomeTrace (resourceStreamAnalyticsJobCreateUpdate P C tr d) =
           tr @ JobsGet (rd_GetString d ''resource_group_name'') (rd_GetString d ''name'') [] # rest \<and>
         list_all (\<lambda>c. \<not> isTransformationsUpdate c \<and>
                       (\<forall>p a b. c = JobsCreateOrReplace p a b \<longrightarrow>
                          inlineTransformation p = Some (Some (buildTransformation d)))) rest \<and>
         length (filter isJobsCreateOrReplace rest) \<le> 1 \<and>
         list_all (\<lambda>c. \<not> mutating c \<or> isJobsCreateOrReplace c) rest"
    using createUpdate_new_trace [OF new] .
  show "\<forall>existing err payload.
         Jobs_Get C tr (rd_GetString d ''resource_group_name'') (rd_GetString d ''name'') [] =
           (existing, err) \<and>
         (err = None \<or> ResponseWasNotFound (sj_Response existing)) \<and>
         (sj_ID existing = None \<or> sj_ID existing = Some []) \<and>
         buildProps P d (NewStreamingJobID (account_SubscriptionId P)
           (rd_GetString d ''resource_group_name'') (rd_GetString d ''name'')) = Inr payload \<longrightarrow>
         (\<exists>rest. outcomeTrace (resourceStreamAnalyticsJobCreateUpdate P C tr d) =
            tr @ [JobsGet (rd_GetString d ''resource_group_name'') (rd_GetString d ''name'') [],
                  JobsCreateOrReplace (withTransformation payload (buildTransformation d))
                    (rd_GetString d ''resource_group_name'') (rd_GetString d ''name'')] @ rest \<and>
            list_all (\<lambda>c. \<not> mutating c) rest \<and>
            inlineTransformation (withTransformation payload (buildTransformation d)) =
              Some (Some (buildTransformation d)))"
    using createUpdate_create_issued [OF new] by blast
qed

lemma read_trace_parsed:
  assumes "parse_StreamingJobID P (rd_Id d) = Inr jid"
  shows "outcomeTrace (resourceStreamAnalyticsJobRead P C tr d) =
           tr @ [JobsGet (id_ResourceGroup jid) (id_Name jid) ''transformation'']"
  using assms
  by (auto simp: resourceStreamAnalyticsJobRead_def outcomeTrace_def Let_def
      split: prod.splits option.splits)

theorem update_is_two_phase_witness:
  "\<not> rd_IsNewResource exampleData \<and>
   buildProps exampleDeps exampleData (NewStreamingJobID (account_SubscriptionId exampleDeps)
      (rd_GetString exampleData ''resource_group_name'') (rd_GetString exampleData ''name'')) =
     Inr examplePayload \<and>
   inlineTransformation examplePayload = Some None \<and>
   outcomeTrace (resourceStreamAnalyticsJobCreateUpdate exampleDeps
       (stubClients (alwaysReply (exampleReply, None)) None None None None None) [] exampleData) =
     [JobsUpdate examplePayload ''rg'' ''job'',
      JobsGet ''rg'' ''job'' ''transformation'',
      TransformationsUpdate (buildTransformation exampleData) ''rg'' ''job'' ''main'',
      JobsGet ''rg'' ''job'' ''transformation''] \<and>
   (\<exists>rest. outcomeTrace (resourceStreamAnalyticsJobCreateUpdate exampleDeps
       (stubClients (alwaysReply (exampleReply, None)) None None None None None) [] exampleData) =
       [JobsUpdate examplePayload ''rg'' ''job'',
        JobsGet ''rg'' ''job'' ''transformation'',
        TransformationsUpdate (buildTransformation exampleData) ''rg'' ''job'' ''main''] @ rest \<and>
      list_all isJobsGet rest) \<and>
   resourceStreamAnalyticsJobCreateUpdate exampleDeps
       (stubClients (alwaysReply (exampleReply, None)) None None (Some (Err ''conflict'')) None None)
       [] exampleData =
     (exampleData, [JobsUpdate examplePayload ''rg'' ''job''],
      Some (Errorf ''updating %s: %+v'' [ArgJobId exampleId] (Err ''conflict''))) \<and>
   rd_IsNewResource newData \<and>
   outcomeTrace (resourceStreamAnalyticsJobCreateUpdate exampleDeps
       (stubClients absentThenPresent None None None None None) [] newData) =
     [JobsGet ''rg'' ''job'' [],
      JobsCreateOrReplace (withTransformation examplePayload (buildTransformation newData)) ''rg'' ''job'',
      FutureWaitForCompletionRef,
      JobsGet ''rg'' ''job'' ''transformation''] \<and>
   (\<exists>rest. outcomeTrace (resourceStreamAnalyticsJobCreateUpdate exampleDeps
       (stubClients absentThenPresent None None None None None) [] newData) =
       [JobsGet ''rg'' ''job'' [],
        JobsCreateOrReplace (withTransformation examplePayload (buildTransformation newData))
          ''rg'' ''job''] @ rest \<and>
      list_all (\<lambda>c. \<not> mutating c) rest) \<and>
   inlineTransformation (withTransformation examplePayload (buildTransformation newData)) =
     Some (Some (buildTransformation newData))"
proof -
  let ?ok = "stubClients (alwaysReply (exampleReply, None)) None None None None None"
  let ?fail = "stubClients (alwaysReply (exampleReply, None)) None None (Some (Err ''conflict'')) None None"
  let ?absent = "stubClients absentThenPresent None None None None None"
  have old: "\<not> rd_IsNewResource exampleData"
    by (simp add: exampleData_def)
  have new: "rd_IsNewResource newData"
    by (simp add: newData_def)
  have rg: "rd_GetString exampleData ''resource_group_name'' = ''rg''"
    and nm: "rd_GetString exampleData ''name'' = ''job''"
    and rg': "rd_GetString newData ''resource_group_name'' = ''rg''"
    and nm': "rd_GetString newData ''name'' = ''job''"
    by (simp_all add: rd_GetString_def exampleData_def newData_def)
  have jid: "NewStreamingJobID (account_SubscriptionId exampleDeps) ''rg'' ''job'' = exampleId"
    by (simp add: NewStreamingJobID_def exampleDeps_def exampleId_def)
  have irg: "id_ResourceGroup exampleId = ''rg''" and inm: "id_Name exampleId = ''job''"
    by (simp_all add: exampleId_def)
  have payload: "buildProps exampleDeps exampleData exampleId = Inr examplePayload"
    by (simp add: buildProps_def exampleDeps_def exampleData_def examplePayload_def exampleId_def
        rd_GetString_def rd_GetInt_def rd_GetMap_def rd_GetOkString_def
        rd_GetOkList_def rd_GetList_def)
  have payload': "buildProps exampleDeps newData exampleId = Inr examplePayload"
    by (simp add: buildProps_def exampleDeps_def exampleData_def newData_def examplePayload_def
        exampleId_def rd_GetString_def rd_GetInt_def rd_GetMap_def rd_GetOkString_def
        rd_GetOkList_def rd_GetList_def)
  have parse: "parse_StreamingJobID exampleDeps (rd_Id exampleData) = Inr exampleId"
    by (simp add: exampleDeps_def exampleData_def)
  have parse': "parse_StreamingJobID exampleDeps
                  (rd_Id (rd_SetId newData (StreamingJobId_ID exampleDeps exampleId))) = Inr exampleId"
    by (simp add: exampleDeps_def rd_SetId_def)
  have named: "sj_Properties exampleReply \<noteq> None"
    "Option.bind (sj_Properties exampleReply) props_Transformation \<noteq> None"
    "Option.bind (Option.bind (sj_Properties exampleReply) props_Transformation)
       transformation_Name = Some ''main''"
    by (simp_all add: exampleReply_def)
  then obtain jobProps readTransformation where job:
    "sj_Properties exampleReply = Some jobProps"
    "props_Transformation jobProps = Some readTransformation"
    "transformation_Name readTransformation = Some ''main''"
    by (auto simp: bind_eq_Some_conv)
  have upd: "Jobs_Update ?ok [] examplePayload ''rg'' ''job'' = None"
    and get: "Jobs_Get ?ok ([] @ [JobsUpdate examplePayload ''rg'' ''job'']) ''rg'' ''job''
                ''transformation'' = (exampleReply, None)"
    and updf: "Jobs_Update ?fail [] examplePayload ''rg'' ''job'' = Some (Err ''conflict'')"
    and probe: "Jobs_Get ?absent [] ''rg'' ''job'' [] =
                  (emptyJob\<lparr>sj_Response := Some 404\<rparr>, Some (Err ''not found''))"
    by (simp_all add: stubClients_def alwaysReply_def absentThenPresent_def)
  note t1 = update_is_two_phase [of exampleData exampleDeps examplePayload ?ok "[]",
      THEN conjunct1, unfolded rg nm jid, rule_format, OF conjI, OF old payload]
  note t2 = update_is_two_phase [of exampleData exampleDeps examplePayload ?fail "[]",
      THEN conjunct1, unfolded rg nm jid, rule_format, OF conjI, OF old payload]
  note t3 = update_is_two_phase [of newData exampleDeps examplePayload ?absent "[]",
      THEN conjunct2, unfolded rg' nm' jid, rule_format, OF new]
  have no_inline: "inlineTransformation examplePayload = Some None"
    using t1 by blast
  have second: "\<exists>rest. outcomeTrace (resourceStreamAnalyticsJobCreateUpdate exampleDeps ?ok [] exampleData) =
       [JobsUpdate examplePayload ''rg'' ''job'',
        JobsGet ''rg'' ''job'' ''transformation'',
        TransformationsUpdate (buildTransformation exampleData) ''rg'' ''job'' ''main''] @ rest \<and>
      list_all isJobsGet rest"
    using t1 upd get job by ((simp only: append_Nil)?, blast?)
  have failed: "resourceStreamAnalyticsJobCreateUpdate exampleDeps ?fail [] exampleData =
     (exampleData, [JobsUpdate examplePayload ''rg'' ''job''],
      Some (Errorf ''updating %s: %+v'' [ArgJobId exampleId] (Err ''conflict'')))"
    using t2 updf by ((simp only: append_Nil)?, blast?)
  have both: "\<exists>rest. outcomeTrace (resourceStreamAnalyticsJobCreateUpdate exampleDeps ?absent [] newData) =
       [] @ [JobsGet ''rg'' ''job'' [],
        JobsCreateOrReplace (withTransformation examplePayload (buildTransformation newData))
          ''rg'' ''job''] @ rest \<and>
      list_all (\<lambda>c. \<not> mutating c) rest \<and>
      inlineTransformation (withTransformation examplePayload (buildTransformation newData)) =
        Some (Some (buildTransformation newData))"
  proof (rule t3 [THEN conjunct2, rule_format, of "emptyJob\<lparr>sj_Response := Some 404\<rparr>"
        "Some (Err ''not found'')" examplePayload])
    show "Jobs_Get ?absent [] ''rg'' ''job'' [] =
            (emptyJob\<lparr>sj_Response := Some 404\<rparr>, Some (Err ''not found'')) \<and>
          (Some (Err ''not found'') = None \<or>
           ResponseWasNotFound (sj_Response (emptyJob\<lparr>sj_Response := Some 404\<rparr>))) \<and>
          (sj_ID (emptyJob\<lparr>sj_Response := Some 404\<rparr>) = None \<or>
           sj_ID (emptyJob\<lparr>sj_Response := Some 404\<rparr>) = Some []) \<and>
          buildProps exampleDeps newData exampleId = Inr examplePayload"
      using probe payload' by (simp add: ResponseWasNotFound_def emptyJob_def)
  qed
  have created: "\<exists>rest. outcomeTrace (resourceStreamAnalyticsJobCreateUpdate exampleDeps ?absent [] newData) =
       [JobsGet ''rg'' ''job'' [],
        JobsCreateOrReplace (withTransformation examplePayload (buildTransformation newData))
          ''rg'' ''job''] @ rest \<and>
      list_all (\<lambda>c. \<not> mutating c) rest"
    and inline: "inlineTransformation (withTransformation examplePayload (buildTransformation newData)) =
     Some (Some (buildTransformation newData))"
    using both by auto
  have ub: "updateBranch ?ok [] exampleData exampleId examplePayload (buildTransformation exampleData) =
              Inr (exampleData,
                   [JobsUpdate examplePayload ''rg'' ''job'',
                    JobsGet ''rg'' ''job'' ''transformation'',
                    TransformationsUpdate (buildTransformation exampleData) ''rg'' ''job'' ''main''])"
    by (simp add: updateBranch_def stubClients_def alwaysReply_def job irg inm Let_def)
  have exact: "outcomeTrace (resourceStreamAnalyticsJobCreateUpdate exampleDeps ?ok [] exampleData) =
     [JobsUpdate examplePayload ''rg'' ''job'',
      JobsGet ''rg'' ''job'' ''transformation'',
      TransformationsUpdate (buildTransformation exampleData) ''rg'' ''job'' ''main'',
      JobsGet ''rg'' ''job'' ''transformation'']"
    using read_trace_parsed [OF parse, of ?ok]
    by (simp add: resourceStreamAnalyticsJobCreateUpdate_def rg nm jid payload old
        existenceProbe_def ub irg inm)
  have pr: "existenceProbe ?absent [] newData exampleId = Inr [JobsGet ''rg'' ''job'' []]"
    using new probe
    by (simp add: existenceProbe_def irg inm ResponseWasNotFound_def emptyJob_def Let_def)
  have cb: "createBranch exampleDeps ?absent [JobsGet ''rg'' ''job'' []] newData exampleId
              examplePayload (buildTransformation newData) =
            Inr (rd_SetId newData (StreamingJobId_ID exampleDeps exampleId),
                 [JobsGet ''rg'' ''job'' [],
                  JobsCreateOrReplace (withTransformation examplePayload (buildTransformation newData))
                    ''rg'' ''job'',
                  FutureWaitForCompletionRef])"
    by (simp add: createBranch_def stubClients_def irg inm Let_def)
  have exact': "outcomeTrace (resourceStreamAnalyticsJobCreateUpdate exampleDeps ?absent [] newData) =
     [JobsGet ''rg'' ''job'' [],
      JobsCreateOrReplace (withTransformation examplePayload (buildTransformation newData)) ''rg'' ''job'',
      FutureWaitForCompletionRef,
      JobsGet ''rg'' ''job'' ''transformation'']"
    using read_trace_parsed [OF parse', of ?absent]
    by (simp add: resourceStreamAnalyticsJobCreateUpdate_def rg' nm' jid payload' new pr cb irg inm)
  have bp: "buildProps exampleDeps exampleData (NewStreamingJobID (account_SubscriptionId exampleDeps)
      (rd_GetString exampleData ''resource_group_name'') (rd_GetString exampleData ''name'')) =
     Inr examplePayload"
    using payload by (simp add: rg nm jid)
  from old bp no_inline exact second failed new exact' created inline
  show ?thesis by blast
qed

section \<open>Exists\<close>

text \<open>
  C4, as the spec states it, at the 2xx status 204: without an error Exists answers
  false, and with the error the client reports for it Exists returns an error; in
  neither case does it answer true.
\<close>

theorem exists_status_204_counterexample:
  "Exists exampleParseCluster (clusterReply (Some 204, None)) exampleClusterString = Inr False \<and>
   Exists exampleParseCluster (clusterReply (Some 204, Some (Err ''unexpected status'')))
       exampleClusterString =
     Inl (Errorf ''while checking for cluster's %q existence: %+v'' [ArgClusterId exampleCluster]
            (Err ''unexpected status''))"
  by (simp add: Exists_def response_WasNotFound_def exampleParseCluster_def clusterReply_def)

text \<open>
  C4, amended. For an identifier that parses: an error with a "not found" response
  yields false; an error with any other response yields an error; a response without an
  error yields true exactly when its status is 200; so no status other than 200, a 2xx
  one included, yields true.
\<close>

theorem exists_by_status:
  assumes "ParseManagedClusterID stateID = Inr resourceID"
    and "clientGet resourceID = (httpResponse, err)"
  shows "(\<forall>e. err = Some e \<longrightarrow>
            (httpResponse = Some 404 \<longrightarrow> Exists ParseManagedClusterID clientGet stateID = Inr False) \<and>
            (httpResponse \<noteq> Some 404 \<longrightarrow>
               Exists ParseManagedClusterID clientGet stateID =
                 Inl (Errorf ''while checking for cluster's %q existence: %+v''
                        [ArgClusterId resourceID] e))) \<and>
         (\<forall>status. err = None \<and> httpResponse = Some status \<longrightarrow>
            Exists ParseManagedClusterID clientGet stateID = Inr (status = 200)) \<and>
         (httpResponse \<noteq> Some 200 \<longrightarrow> Exists ParseManagedClusterID clientGet stateID \<noteq> Inr True)"
  using assms
  by (auto simp: Exists_def response_WasNotFound_def split: option.splits)

theorem exists_by_status_witness:
  "exampleParseCluster exampleClusterString = Inr exampleCluster \<and>
   Exists exampleParseCluster (clusterReply (Some 404, Some (Err ''not found''))) exampleClusterString =
     Inr False \<and>
   Exists exampleParseCluster (clusterReply (Some 500, Some (Err ''server error''))) exampleClusterString =
     Inl (Errorf ''while checking for cluster's %q existence: %+v'' [ArgClusterId exampleCluster]
            (Err ''server error'')) \<and>
   Exists exampleParseCluster (clusterReply (Some 200, None)) exampleClusterString = Inr True \<and>
   Exists exampleParseCluster (clusterReply (Some 204, None)) exampleClusterString \<noteq> Inr True"
proof -
  have p: "exampleParseCluster exampleClusterString = Inr exampleCluster"
    by (simp add: exampleParseCluster_def)
  have g1: "clusterReply (Some 404, Some (Err ''not found'')) exampleCluster =
              (Some 404, Some (Err ''not found''))"
    and g2: "clusterReply (Some 500, Some (Err ''server error'')) exampleCluster =
              (Some 500, Some (Err ''server error''))"
    and g3: "clusterReply (Some 200, None) exampleCluster = (Some 200, None)"
    and g4: "clusterReply (Some 204, None) exampleCluster = (Some 204, None)"
    by (simp_all add: clusterReply_def)
  show ?thesis
    using p
      exists_by_status [of exampleParseCluster exampleClusterString exampleCluster
        "clusterReply (Some 404, Some (Err ''not found''))", OF p g1]
      exists_by_status [of exampleParseCluster exampleClusterString exampleCluster
        "clusterReply (Some 500, Some (Err ''server error''))", OF p g2]
      exists_by_status [of exampleParseCluster exampleClusterString exampleCluster
        "clusterReply (Some 200, None)", OF p g3]
      exists_by_status [of exampleParseCluster exampleClusterString exampleCluster
        "clusterReply (Some 204, None)", OF p g4]
    by simp
qed

section \<open>Errors of the API\<close>

text \<open>
  C6 at an update of an existing job whose update call succeeds and whose following Get
  fails: the error comes back as the API returned it, without the identifier or the
  operation. The same invocation with a failing update call returns the error wrapped.
\<close>

theorem update_get_error_is_not_wrapped:
  "resourceStreamAnalyticsJobCreateUpdate exampleDeps
       (stubClients (alwaysReply (emptyJob, Some (Err ''connection reset''))) None None None None None)
       [] exampleData =
     (exampleData,
      [JobsUpdate examplePayload ''rg'' ''job'', JobsGet ''rg'' ''job'' ''transformation''],
      Some (Err ''connection reset'')) \<and>
   resourceStreamAnalyticsJobCreateUpdate exampleDeps
       (stubClients (alwaysReply (emptyJob, None)) None None (Some (Err ''connection reset'')) None None)
       [] exampleData =
     (exampleData,
      [JobsUpdate examplePayload ''rg'' ''job''],
      Some (Errorf ''updating %s: %+v'' [ArgJobId exampleId] (Err ''connection reset'')))"
proof -
  have payload: "buildProps exampleDeps exampleData exampleId = Inr examplePayload"
    by (simp add: buildProps_def exampleDeps_def exampleData_def examplePayload_def exampleId_def
        rd_GetString_def rd_GetInt_def rd_GetMap_def rd_GetOkString_def
        rd_GetOkList_def rd_GetList_def)
  have jid: "NewStreamingJobID (account_SubscriptionId exampleDeps)
      (rd_GetString exampleData ''resource_group_name'') (rd_GetString exampleData ''name'') = exampleId"
    by (simp add: NewStreamingJobID_def exampleDeps_def exampleData_def exampleId_def rd_GetString_def)
  have old: "\<not> rd_IsNewResource exampleData"
    by (simp add: exampleData_def)
  have rg: "id_ResourceGroup exampleId = ''rg''" and nm: "id_Name exampleId = ''job''"
    by (simp_all add: exampleId_def)
  show ?thesis
    by (simp add: resourceStreamAnalyticsJobCreateUpdate_def jid payload old existenceProbe_def
        updateBranch_def stubClients_def alwaysReply_def rg nm)
qed

section \<open>Read: what is written to the state\<close>

lemma rd_SetIgnore_accepted:
  assumes "\<forall>k v. set_error P k v = None"
  shows "rd_SetIgnore P d k v = d\<lparr>rd_attrs := (rd_attrs d)(k \<mapsto> v)\<rparr>"
  using assms by (simp add: rd_SetIgnore_def rd_Set_def)

lemma rd_Set_accepted:
  assumes "\<forall>k v. set_error P k v = None"
  shows "rd_Set P d k v = (d\<lparr>rd_attrs := (rd_attrs d)(k \<mapsto> v)\<rparr>, None)"
  using assms by (simp add: rd_Set_def)

text \<open>
  C5, as the spec states it, at a job whose state holds the data locale \<open>en-US\<close> and
  whose response has properties without a data locale: Read succeeds and the state's
  data locale is overwritten with the null value, which reads back as the empty string.
\<close>

theorem read_absent_data_locale_counterexample:
  "outcomeError (resourceStreamAnalyticsJobRead exampleDeps
       (stubClients (alwaysReply (exampleReply, None)) None None None None None) [] exampleData) = None \<and>
   map_option props_DataLocale (sj_Properties exampleReply) = Some None \<and>
   rd_GetString exampleData ''data_locale'' = ''en-US'' \<and>
   rd_attrs (outcomeData (resourceStreamAnalyticsJobRead exampleDeps
       (stubClients (alwaysReply (exampleReply, None)) None None None None None) [] exampleData))
     ''data_locale'' = Some VNil \<and>
   rd_GetString (outcomeData (resourceStreamAnalyticsJobRead exampleDeps
       (stubClients (alwaysReply (exampleReply, None)) None None None None None) [] exampleData))
     ''data_locale'' = []"
proof -
  have accept: "\<forall>k v. set_error exampleDeps k v = None"
    by (simp add: exampleDeps_def)
  have parse: "parse_StreamingJobID exampleDeps (rd_Id exampleData) = Inr exampleId"
    by (simp add: exampleDeps_def exampleData_def)
  have r: "resourceStreamAnalyticsJobRead exampleDeps
       (stubClients (alwaysReply (exampleReply, None)) None None None None None) [] exampleData =
       (case readResponse exampleDeps exampleId exampleReply exampleData of
          (d', e) \<Rightarrow> (d', [JobsGet ''rg'' ''job'' ''transformation''], e))"
    by (simp add: resourceStreamAnalyticsJobRead_def parse stubClients_def alwaysReply_def exampleId_def)
  have e: "snd (readResponse exampleDeps exampleId exampleReply exampleData) = None"
    and a: "rd_attrs (fst (readResponse exampleDeps exampleId exampleReply exampleData))
              ''data_locale'' = Some VNil"
    by (simp_all add: readResponse_def readProperties_def tags_FlattenAndSet_def
        rd_SetIgnore_accepted [OF accept] rd_Set_accepted [OF accept]
        exampleReply_def flattenStreamAnalyticsJobIdentity_def list_val_def ptr_val_def)
  have before: "rd_GetString exampleData ''data_locale'' = ''en-US''"
    by (simp add: rd_GetString_def exampleData_def)
  have absent: "map_option props_DataLocale (sj_Properties exampleReply) = Some None"
    by (simp add: exampleReply_def)
  show ?thesis
    using e a before absent
    by (simp add: r outcomeError_def outcomeData_def split_beta rd_GetString_def)
qed

text \<open>
  C5, amended. On a Read whose Get succeeds, with every Set accepted: the name and the
  resource group come from the parsed identifier, the identity and the tags from the
  response (the identity as null when absent); the location, the two delays and the
  streaming units are written only when the response carries them and keep their
  previous value otherwise; when the response has properties, the compatibility level,
  the two policies, the data locale and the job id are always written, a nil pointer as
  null in place of the previous value, the cluster id is written when the cluster object
  is present and the transformation query when the transformation is present; when the
  response has no properties none of these attributes changes.
\<close>

theorem read_writes_state:
  assumes "\<forall>k v. set_error P k v = None"
    and "parse_StreamingJobID P (rd_Id d) = Inr jid"
    and "Jobs_Get C tr (id_ResourceGroup jid) (id_Name jid) ''transformation'' = (resp, None)"
    and "\<forall>p t. sj_Properties resp = Some p \<and> props_Transformation p = Some t \<longrightarrow>
           transformation_Properties t \<noteq> None"
  shows "\<exists>d'. resourceStreamAnalyticsJobRead P C tr d =
           (d', tr @ [JobsGet (id_ResourceGroup jid) (id_Name jid) ''transformation''], None) \<and>
         rd_Id d' = rd_Id d \<and>
         rd_attrs d' ''name'' = Some (VString (id_Name jid)) \<and>
         rd_attrs d' ''resource_group_name'' = Some (VString (id_ResourceGroup jid)) \<and>
         rd_attrs d' ''location'' =
           (case sj_Location resp of
              Some l \<Rightarrow> Some (VString (NormalizeLocation P l))
            | None \<Rightarrow> rd_attrs d ''location'') \<and>
         rd_attrs d' ''identity'' =
           Some (list_val (flattenStreamAnalyticsJobIdentity (sj_Identity resp))) \<and>
         rd_attrs d' ''tags'' = Some (tags_Flatten P (sj_Tags resp)) \<and>
         (case sj_Properties resp of
            None \<Rightarrow>
              list_all (\<lambda>k. rd_attrs d' k = rd_attrs d k)
                [''compatibility_level'', ''data_locale'',
                 ''events_late_arrival_max_delay_in_seconds'',
                 ''events_out_of_order_max_delay_in_seconds'', ''stream_analytics_cluster_id'',
                 ''events_out_of_order_policy'', ''output_error_policy'', ''job_id'',
                 ''streaming_units'', ''transformation_query'']
          | Some props \<Rightarrow>
              rd_attrs d' ''compatibility_level'' = Some (VString (props_CompatibilityLevel props)) \<and>
              rd_attrs d' ''data_locale'' = Some (ptr_val (props_DataLocale props)) \<and>
              rd_attrs d' ''events_late_arrival_max_delay_in_seconds'' =
                (case props_EventsLateArrivalMaxDelayInSeconds props of
                   Some x \<Rightarrow> Some (VInt (sint x))
                 | None \<Rightarrow> rd_attrs d ''events_late_arrival_max_delay_in_seconds'') \<and>
              rd_attrs d' ''events_out_of_order_max_delay_in_seconds'' =
                (case props_EventsOutOfOrderMaxDelayInSeconds props of
                   Some x \<Rightarrow> Some (VInt (sint x))
                 | None \<Rightarrow> rd_attrs d ''events_out_of_order_max_delay_in_seconds'') \<and>
              rd_attrs d' ''stream_analytics_cluster_id'' =
                (case props_Cluster props of
                   Some c \<Rightarrow> Some (ptr_val (cluster_ID c))
                 | None \<Rightarrow> rd_attrs d ''stream_analytics_cluster_id'') \<and>
              rd_attrs d' ''events_out_of_order_policy'' =
                Some (VString (props_EventsOutOfOrderPolicy props)) \<and>
              rd_attrs d' ''output_error_policy'' = Some (VString (props_OutputErrorPolicy props)) \<and>
              rd_attrs d' ''job_id'' = Some (ptr_val (props_JobID props)) \<and>
              (case props_Transformation props of
                 None \<Rightarrow>
                   rd_attrs d' ''streaming_units'' = rd_attrs d ''streaming_units'' \<and>
                   rd_attrs d' ''transformation_query'' = rd_attrs d ''transformation_query''
               | Some transformation \<Rightarrow>
                   rd_attrs d' ''streaming_units'' =
                     (case Option.bind (transformation_Properties transformation) tp_StreamingUnits of
                        Some units \<Rightarrow> Some (VInt (sint units))
                      | None \<Rightarrow> rd_attrs d ''streaming_units'') \<and>
                   rd_attrs d' ''transformation_query'' =
                     Some (ptr_val (Option.bind (transformation_Properties transformation) tp_Query))))"
proof -
  note acc = rd_SetIgnore_accepted [OF assms(1)] rd_Set_accepted [OF assms(1)]
  have r: "resourceStreamAnalyticsJobRead P C tr d =
       (case readResponse P jid resp d of
          (d', e) \<Rightarrow> (d', tr @ [JobsGet (id_ResourceGroup jid) (id_Name jid) ''transformation''], e))"
    using assms(2,3) by (simp add: resourceStreamAnalyticsJobRead_def)
  show ?thesis
  proof (cases "sj_Properties resp")
    case None
    then show ?thesis
      by (simp add: r readResponse_def tags_FlattenAndSet_def acc split: option.split)
  next
    case (Some props)
    show ?thesis
    proof (cases "props_Transformation props")
      case None
      with Some show ?thesis
        by (simp add: r readResponse_def readProperties_def tags_FlattenAndSet_def acc
            split: option.split)
    next
      case (Some t)
      with \<open>sj_Properties resp = Some props\<close> assms(4)
      obtain tp where tp: "transformation_Properties t = Some tp" by auto
      with Some \<open>sj_Properties resp = Some props\<close> show ?thesis
        by (simp add: r readResponse_def readProperties_def tags_FlattenAndSet_def acc
            split: option.split)
    qed
  qed
qed

theorem read_writes_state_witness:
  "(\<forall>k v. set_error exampleDeps k v = None) \<and>
   parse_StreamingJobID exampleDeps (rd_Id exampleData) = Inr exampleId \<and>
   Jobs_Get (stubClients (alwaysReply (exampleReply, None)) None None None None None) []
     (id_ResourceGroup exampleId) (id_Name exampleId) ''transformation'' = (exampleReply, None) \<and>
   (\<exists>d'. resourceStreamAnalyticsJobRead exampleDeps
            (stubClients (alwaysReply (exampleReply, None)) None None None None None) [] exampleData =
           (d', [JobsGet ''rg'' ''job'' ''transformation''], None) \<and>
         rd_attrs d' ''name'' = Some (VString ''job'') \<and>
         rd_attrs d' ''location'' = Some (VString ''westeurope'') \<and>
         rd_attrs d' ''identity'' = Some VNil \<and>
         rd_attrs d' ''job_id'' = Some (VString ''0000-job'') \<and>
         rd_attrs d' ''data_locale'' = Some VNil \<and>
         rd_attrs d' ''events_late_arrival_max_delay_in_seconds'' = Some (VInt 5) \<and>
         rd_attrs d' ''events_out_of_order_max_delay_in_seconds'' =
           rd_attrs exampleData ''events_out_of_order_max_delay_in_seconds'' \<and>
         rd_attrs d' ''stream_analytics_cluster_id'' =
           rd_attrs exampleData ''stream_analytics_cluster_id'' \<and>
         rd_attrs d' ''streaming_units'' = Some (VInt 3) \<and>
         rd_attrs d' ''transformation_query'' = Some (VString ''SELECT * INTO o FROM i''))"
proof -
  have accept: "\<forall>k v. set_error exampleDeps k v = None"
    by (simp add: exampleDeps_def)
  have parse: "parse_StreamingJobID exampleDeps (rd_Id exampleData) = Inr exampleId"
    by (simp add: exampleDeps_def exampleData_def)
  have get: "Jobs_Get (stubClients (alwaysReply (exampleReply, None)) None None None None None) []
     (id_ResourceGroup exampleId) (id_Name exampleId) ''transformation'' = (exampleReply, None)"
    by (simp add: stubClients_def alwaysReply_def)
  have nopanic: "\<forall>p t. sj_Properties exampleReply = Some p \<and> props_Transformation p = Some t \<longrightarrow>
           transformation_Properties t \<noteq> None"
    by (auto simp: exampleReply_def)
  from read_writes_state [OF accept parse get nopanic]
  obtain d' where d':
    "resourceStreamAnalyticsJobRead exampleDeps
       (stubClients (alwaysReply (exampleReply, None)) None None None None None) [] exampleData =
     (d', [] @ [JobsGet (id_ResourceGroup exampleId) (id_Name exampleId) ''transformation''], None)"
    "rd_attrs d' ''name'' = Some (VString (id_Name exampleId))"
    "rd_attrs d' ''location'' =
           (case sj_Location exampleReply of
              Some l \<Rightarrow> Some (VString (NormalizeLocation exampleDeps l))
            | None \<Rightarrow> rd_attrs exampleData ''location'')"
    "rd_attrs d' ''identity'' =
           Some (list_val (flattenStreamAnalyticsJobIdentity (sj_Identity exampleReply)))"
    "(case sj_Properties exampleReply of
            None \<Rightarrow>
              list_all (\<lambda>k. rd_attrs d' k = rd_attrs exampleData k)
                [''compatibility_level'', ''data_locale'',
                 ''events_late_arrival_max_delay_in_seconds'',
                 ''events_out_of_order_max_delay_in_seconds'', ''stream_analytics_cluster_id'',
                 ''events_out_of_order_policy'', ''output_error_policy'', ''job_id'',
                 ''streaming_units'', ''transformation_query'']
          | Some props \<Rightarrow>
              rd_attrs d' ''compatibility_level'' = Some (VString (props_CompatibilityLevel props)) \<and>
              rd_attrs d' ''data_locale'' = Some (ptr_val (props_DataLocale props)) \<and>
              rd_attrs d' ''events_late_arrival_max_delay_in_seconds'' =
                (case props_EventsLateArrivalMaxDelayInSeconds props of
                   Some x \<Rightarrow> Some (VInt (sint x))
                 | None \<Rightarrow> rd_attrs exampleData ''events_late_arrival_max_delay_in_seconds'') \<and>
              rd_attrs d' ''events_out_of_order_max_delay_in_seconds'' =
                (case props_EventsOutOfOrderMaxDelayInSeconds props of
                   Some x \<Rightarrow> Some (VInt (sint x))
                 | None \<Rightarrow> rd_attrs exampleData ''events_out_of_order_max_delay_in_seconds'') \<and>
              rd_attrs d' ''stream_analytics_cluster_id'' =
                (case props_Cluster props of
                   Some c \<Rightarrow> Some (ptr_val (cluster_ID c))
                 | None \<Rightarrow> rd_attrs exampleData ''stream_analytics_cluster_id'') \<and>
              rd_attrs d' ''events_out_of_order_policy'' =
                Some (VString (props_EventsOutOfOrderPolicy props)) \<and>
              rd_attrs d' ''output_error_policy'' = Some (VString (props_OutputErrorPolicy props)) \<and>
              rd_attrs d' ''job_id'' = Some (ptr_val (props_JobID props)) \<and>
              (case props_Transformation props of
                 None \<Rightarrow>
                   rd_attrs d' ''streaming_units'' = rd_attrs exampleData ''streaming_units'' \<and>
                   rd_attrs d' ''transformation_query'' = rd_attrs exampleData ''transformation_query''
               | Some transformation \<Rightarrow>
                   rd_attrs d' ''streaming_units'' =
                     (case Option.bind (transformation_Properties transformation) tp_StreamingUnits of
                        Some units \<Rightarrow> Some (VInt (sint units))
                      | None \<Rightarrow> rd_attrs exampleData ''streaming_units'') \<and>
                   rd_attrs d' ''transformation_query'' =
                     Some (ptr_val (Option.bind (transformation_Properties transformation) tp_Query))))"
    by blast
  have "resourceStreamAnalyticsJobRead exampleDeps
            (stubClients (alwaysReply (exampleReply, None)) None None None None None) [] exampleData =
           (d', [JobsGet ''rg'' ''job'' ''transformation''], None) \<and>
         rd_attrs d' ''name'' = Some (VString ''job'') \<and>
         rd_attrs d' ''location'' = Some (VString ''westeurope'') \<and>
         rd_attrs d' ''identity'' = Some VNil \<and>
         rd_attrs d' ''job_id'' = Some (VString ''0000-job'') \<and>
         rd_attrs d' ''data_locale'' = Some VNil \<and>
         rd_attrs d' ''events_late_arrival_max_delay_in_seconds'' = Some (VInt 5) \<and>
         rd_attrs d' ''events_out_of_order_max_delay_in_seconds'' =
           rd_attrs exampleData ''events_out_of_order_max_delay_in_seconds'' \<and>
         rd_attrs d' ''stream_analytics_cluster_id'' =
           rd_attrs exampleData ''stream_analytics_cluster_id'' \<and>
         rd_attrs d' ''streaming_units'' = Some (VInt 3) \<and>
         rd_attrs d' ''transformation_query'' = Some (VString ''SELECT * INTO o FROM i'')"
    using d'
    by (simp add: exampleReply_def exampleId_def exampleDeps_def ptr_val_def list_val_def
        flattenStreamAnalyticsJobIdentity_def)
  with accept parse get show ?thesis by blast
qed

section \<open>The node type scenario\<close>

lemma map_of_filter_unsupplied:
  "map_of (filter (\<lambda>kv. map_of desired (fst kv) = None) prior) k =
     (if map_of desired k = None then map_of prior k else None)"
  by (induction prior) auto

lemma map_of_mergeBlock:
  "map_of (mergeBlock desired prior) k =
     (case map_of desired k of Some v \<Rightarrow> Some v | None \<Rightarrow> map_of prior k)"
  by (simp add: mergeBlock_def map_add_def map_of_filter_unsupplied
      split: option.splits)

lemma map_of_applyBlock:
  "map_of (applyBlock remote desired) k =
     (case map_of desired k of
        Some v \<Rightarrow> Some v
      | None \<Rightarrow>
          (case find (\<lambda>r. blockName r = blockName desired) remote of
             None \<Rightarrow> None
           | Some prior \<Rightarrow> map_of prior k))"
  by (simp add: applyBlock_def map_of_mergeBlock split: option.splits)

lemma applyNodeTypes_supplied:
  assumes "i < length config" and "map_of (config ! i) k = Some v"
  shows "map_of (applyNodeTypes remote config ! i) k = Some v"
  using assms by (simp add: applyNodeTypes_def map_of_applyBlock)

lemma applyNodeTypes_frame:
  assumes "i < length config"
    and "find (\<lambda>r. blockName r = blockName (config ! i)) remote = Some prior"
    and "map_of (config ! i) k = None \<or> map_of (config ! i) k = map_of prior k"
  shows "map_of (applyNodeTypes remote config ! i) k = map_of prior k"
  using assms by (auto simp: applyNodeTypes_def map_of_applyBlock split: option.splits)

lemma showNat_0: "showNat 0 = ''0''"
  by (subst showNat.simps) simp

lemma showNat_1: "showNat (Suc 0) = ''1''"
  by (subst showNat.simps) simp

lemma showNat_2: "showNat (Suc (Suc 0)) = ''2''"
  by (subst showNat.simps) simp

lemmas showNat_small = showNat_0 showNat_1 showNat_2

lemma showInt_140: "showInt 140 = ''140''"
proof -
  have "showNat 14 = ''14''"
    by (subst showNat.simps) (simp add: showNat_1)
  then have "showNat 140 = ''140''"
    by (subst showNat.simps) simp
  then show ?thesis
    by (simp add: showInt_def)
qed

lemma scenario_blocks:
  "applyNodeTypes nodeTypeData1 nodeTypeData1 = nodeTypeData1"
  "applyNodeTypes nodeTypeData1 nodeTypeDataBoth = nodeTypeDataBoth"
  "applyNodeTypes nodeTypeDataBoth nodeTypeData1 = nodeTypeData1"
  "applyNodeTypes nodeTypeData1 nodeTypeData1Altered = nodeTypeData1Altered"
  by (simp_all add: applyNodeTypes_def applyBlock_def mergeBlock_def blockName_def
      nodeTypeDataBoth_def nodeTypeData1_def nodeTypeData2_def nodeTypeData1Altered_def nodeType_def)

lemma scenario_attrs:
  "mergeBlock (cfg_attrs (basic data nts)) (cfg_attrs (basic data nts')) = cfg_attrs (basic data nts)"
  by (simp add: mergeBlock_def basic_def)

lemma scenario_apply:
  "applyConfig None (basic data nts) = basic data nts"
  "applyConfig (Some (basic data nts')) (basic data nts) =
     (basic data nts)\<lparr>cfg_node_type := applyNodeTypes nts' nts\<rparr>"
  using scenario_attrs [of data nts nts']
  by (simp_all add: applyConfig_def) (simp add: basic_def)

lemma basic_node_type: "(basic data nts)\<lparr>cfg_node_type := nts'\<rparr> = basic data nts'"
  by (simp add: basic_def)

lemma scenario_run:
  "map fst (runSteps env None (testSteps data)) =
     [Some (basic data nodeTypeData1), Some (basic data nodeTypeData1),
      Some (basic data nodeTypeDataBoth), Some (basic data nodeTypeData1),
      Some (basic data nodeTypeData1Altered)]"
  by (simp add: testSteps_def Let_def scenario_apply scenario_blocks basic_node_type)

lemma exists_in_azure:
  assumes "env_Parse env (env_StateID env) = Inr resourceID"
  shows "checkHolds env (Some c) ExistsInAzure"
  using assms by (simp add: Exists_def remoteGet_def)

lemma scenario_keys:
  "map_of (flatState (basic data nts)) ''tags.%'' = Some ''1''"
  "map_of (flatState (basic data nts)) ''tags.Test'' = Some ''value''"
  "map_of (flatState (basic data nodeTypeDataBoth)) ''node_type.#'' = Some ''2''"
  "map_of (flatState (basic data nodeTypeDataBoth)) ''node_type.0.name'' = Some ''test1''"
  "map_of (flatState (basic data nodeTypeDataBoth)) ''node_type.1.name'' = Some ''test2''"
  "map_of (flatState (basic data nodeTypeData1)) ''node_type.#'' = Some ''1''"
  "map_of (flatState (basic data nodeTypeData1)) ''node_type.0.name'' = Some ''test1''"
  "map_of (flatState (basic data nodeTypeData1Altered)) ''node_type.#'' = Some ''1''"
  "map_of (flatState (basic data nodeTypeData1Altered)) ''node_type.0.data_disk_size_gb'' = Some ''140''"
  by (simp_all add: flatState_def basic_def showNat_small showInt_140 showVal_def
      nodeTypeDataBoth_def nodeTypeData1_def nodeTypeData2_def nodeTypeData1Altered_def nodeType_def)

lemma scenario_checks:
  assumes "env_Parse env (env_StateID env) = Inr resourceID"
  shows "list_all snd (runSteps env None (testSteps data))"
  using exists_in_azure [OF assms]
  by (simp add: testSteps_def Let_def scenario_apply scenario_blocks basic_node_type
      scenario_keys importHolds_def)

lemma scenario_node_types:
  "nodeTypeStates (runSteps env None (testSteps data)) =
     [nodeTypeData1, nodeTypeData1, nodeTypeDataBoth, nodeTypeData1, nodeTypeData1Altered]"
proof -
  have "nodeTypeStates (runSteps env None (testSteps data)) =
          map (\<lambda>r. case r of None \<Rightarrow> [] | Some c \<Rightarrow> cfg_node_type c)
            (map fst (runSteps env None (testSteps data)))"
    by (simp add: nodeTypeStates_def comp_def)
  also have "\<dots> = [nodeTypeData1, nodeTypeData1, nodeTypeDataBoth, nodeTypeData1,
                     nodeTypeData1Altered]"
    by (simp only: scenario_run) (simp add: basic_def)
  finally show ?thesis .
qed

text \<open>
  C8. An apply of a list of node type blocks returns as many entries as the
  configuration has; every attribute the configuration supplies has the supplied value;
  and an attribute of an entry that the configuration leaves out, or supplies with the
  value the remote entry of the same name already has, keeps that remote value, whatever
  entries are added, removed or changed beside it. In the scenario of the acceptance
  test (one node type, the import, two node types, one again, then the remaining one with
  \<open>data_disk_size_gb\<close> changed from 130 to 140), run from an absent cluster, the state
  after every step is that step's configuration; the first entry is unchanged by the
  step that adds the second and by the step that removes it, and the last step changes
  \<open>data_disk_size_gb\<close> of the remaining entry and no other attribute; with a state
  identifier that parses, every step passes its checks.
\<close>

theorem node_type_scenario:
  "length (applyNodeTypes remote config) = length config \<and>
   (\<forall>i k v. i < length config \<and> map_of (config ! i) k = Some v \<longrightarrow>
      map_of (applyNodeTypes remote config ! i) k = Some v) \<and>
   (\<forall>i k prior.
      i < length config \<and>
      find (\<lambda>r. blockName r = blockName (config ! i)) remote = Some prior \<and>
      (map_of (config ! i) k = None \<or> map_of (config ! i) k = map_of prior k) \<longrightarrow>
      map_of (applyNodeTypes remote config ! i) k = map_of prior k) \<and>
   map fst (runSteps env None (testSteps data)) =
     [Some (basic data nodeTypeData1), Some (basic data nodeTypeData1),
      Some (basic data nodeTypeDataBoth), Some (basic data nodeTypeData1),
      Some (basic data nodeTypeData1Altered)] \<and>
   (\<exists>s1 s2 s3 s4 s5.
      nodeTypeStates (runSteps env None (testSteps data)) = [s1, s2, s3, s4, s5] \<and>
      length s1 = 1 \<and> s2 = s1 \<and>
      length s3 = 2 \<and> take 1 s3 = s2 \<and>
      s4 = take 1 s3 \<and>
      length s5 = 1 \<and>
      map (otherAttributes ''data_disk_size_gb'') s5 =
        map (otherAttributes ''data_disk_size_gb'') s4 \<and>
      map (\<lambda>b. map_of b ''data_disk_size_gb'') s4 = [Some (VInt 130)] \<and>
      map (\<lambda>b. map_of b ''data_disk_size_gb'') s5 = [Some (VInt 140)]) \<and>
   (env_Parse env (env_StateID env) = Inr resourceID \<longrightarrow>
      list_all snd (runSteps env None (testSteps data)))"
proof -
  have count: "length (applyNodeTypes remote config) = length config"
    by (simp add: applyNodeTypes_def)
  have supplied: "\<forall>i k v. i < length config \<and> map_of (config ! i) k = Some v \<longrightarrow>
      map_of (applyNodeTypes remote config ! i) k = Some v"
    using applyNodeTypes_supplied by blast
  have frame: "\<forall>i k prior.
      i < length config \<and>
      find (\<lambda>r. blockName r = blockName (config ! i)) remote = Some prior \<and>
      (map_of (config ! i) k = None \<or> map_of (config ! i) k = map_of prior k) \<longrightarrow>
      map_of (applyNodeTypes remote config ! i) k = map_of prior k"
    using applyNodeTypes_frame by blast
  have steps: "length nodeTypeData1 = 1" "length nodeTypeDataBoth = 2"
    "take 1 nodeTypeDataBoth = nodeTypeData1" "length nodeTypeData1Altered = 1"
    "map (otherAttributes ''data_disk_size_gb'') nodeTypeData1Altered =
       map (otherAttributes ''data_disk_size_gb'') nodeTypeData1"
    "map (\<lambda>b. map_of b ''data_disk_size_gb'') nodeTypeData1 = [Some (VInt 130)]"
    "map (\<lambda>b. map_of b ''data_disk_size_gb'') nodeTypeData1Altered = [Some (VInt 140)]"
    by (simp_all add: nodeTypeDataBoth_def nodeTypeData1_def nodeTypeData2_def
        nodeTypeData1Altered_def nodeType_def otherAttributes_def)
  have states: "\<exists>s1 s2 s3 s4 s5.
      nodeTypeStates (runSteps env None (testSteps data)) = [s1, s2, s3, s4, s5] \<and>
      length s1 = 1 \<and> s2 = s1 \<and>
      length s3 = 2 \<and> take 1 s3 = s2 \<and>
      s4 = take 1 s3 \<and>
      length s5 = 1 \<and>
      map (otherAttributes ''data_disk_size_gb'') s5 =
        map (otherAttributes ''data_disk_size_gb'') s4 \<and>
      map (\<lambda>b. map_of b ''data_disk_size_gb'') s4 = [Some (VInt 130)] \<and>
      map (\<lambda>b. map_of b ''data_disk_size_gb'') s5 = [Some (VInt 140)]"
    using steps by (simp add: scenario_node_types)
  from count supplied frame scenario_run [of env data] states scenario_checks [of env resourceID data]
  show ?thesis by blast
qed

theorem node_type_scenario_witness:
  "env_Parse exampleEnv (env_StateID exampleEnv) = Inr exampleCluster \<and>
   list_all snd (runSteps exampleEnv None (testSteps exampleTestData)) \<and>
   length (applyNodeTypes nodeTypeData1 resizeOnly) = 1 \<and>
   map_of (applyNodeTypes nodeTypeData1 resizeOnly ! 0) ''data_disk_size_gb'' = Some (VInt 140) \<and>
   map_of (applyNodeTypes nodeTypeData1 resizeOnly ! 0) ''vm_size'' =
     Some (VString ''Standard_DS2_v2'') \<and>
   map_of (applyNodeTypes nodeTypeData1 resizeOnly ! 0) ''vm_instance_count'' = Some (VInt 5)"
proof -
  note t = node_type_scenario [of nodeTypeData1 resizeOnly exampleEnv exampleTestData exampleCluster]
  have parse: "env_Parse exampleEnv (env_StateID exampleEnv) = Inr exampleCluster"
    by (simp add: exampleEnv_def exampleParseCluster_def)
  have len: "length resizeOnly = 1" "0 < length resizeOnly"
    by (simp_all add: resizeOnly_def)
  have sup: "map_of (resizeOnly ! 0) ''data_disk_size_gb'' = Some (VInt 140)"
    and unsup: "map_of (resizeOnly ! 0) ''vm_size'' = None"
      "map_of (resizeOnly ! 0) ''vm_instance_count'' = None"
    by (simp_all add: resizeOnly_def)
  have prior: "find (\<lambda>r. blockName r = blockName (resizeOnly ! 0)) nodeTypeData1 =
                 Some (hd nodeTypeData1)"
    by (simp add: resizeOnly_def nodeTypeData1_def nodeType_def blockName_def)
  have old: "map_of (hd nodeTypeData1) ''vm_size'' = Some (VString ''Standard_DS2_v2'')"
    "map_of (hd nodeTypeData1) ''vm_instance_count'' = Some (VInt 5)"
    by (simp_all add: nodeTypeData1_def nodeType_def)
  from t parse have checks: "list_all snd (runSteps exampleEnv None (testSteps exampleTestData))"
    by blast
  from t len have count: "length (applyNodeTypes nodeTypeData1 resizeOnly) = 1"
    by simp
  from t len(2) sup
  have size: "map_of (applyNodeTypes nodeTypeData1 resizeOnly ! 0) ''data_disk_size_gb'' =
                Some (VInt 140)"
    by blast
  from t len(2) prior unsup(1)
  have "map_of (applyNodeTypes nodeTypeData1 resizeOnly ! 0) ''vm_size'' =
          map_of (hd nodeTypeData1) ''vm_size''"
    by blast
  moreover from t len(2) prior unsup(2)
  have "map_of (applyNodeTypes nodeTypeData1 resizeOnly ! 0) ''vm_instance_count'' =
          map_of (hd nodeTypeData1) ''vm_instance_count''"
    by blast
  ultimately show ?thesis
    using parse checks count size old by simp
qed

end
